theory Spec2Isabelle
  imports Main
begin

section \<open>Python values used by the payment code\<close>

text \<open>
  Text is a list of code points below 256. Timestamps are whole seconds on the server
  clock, and a \<open>timedelta(minutes=5)\<close> is 300. Money is a \<open>Decimal\<close> with two
  places and is kept in hundredths (cents).
\<close>

type_synonym time = int

text \<open>The JSON scalars that reach the handlers (result codes arrive as numbers or text).\<close>

datatype json = JNull | JBool bool | JInt int | JStr string

text \<open>\<open>str.isdigit\<close> on a code point below 256: the ASCII digits and the three
  superscript digits of Latin-1.\<close>

definition isdigit :: "char \<Rightarrow> bool" where
  "isdigit c =
     (let n = (of_char c :: nat)
      in (48 \<le> n \<and> n \<le> 57) \<or> n = 178 \<or> n = 179 \<or> n = 185)"

definition startswith :: "string \<Rightarrow> string \<Rightarrow> bool" where
  "startswith s p = (take (length p) s = p)"

function str_nat :: "nat \<Rightarrow> string" where
  "str_nat n =
     (if n < 10 then [char_of (48 + n)]
      else str_nat (n div 10) @ [char_of (48 + n mod 10)])"
  by pat_completeness auto
termination
  by (relation "measure (\<lambda>n. n)") auto

declare str_nat.simps [simp del]

definition str_int :: "int \<Rightarrow> string" where
  "str_int i = (if i < 0 then CHR ''-'' # str_nat (nat (- i)) else str_nat (nat i))"

text \<open>Python's \<open>str(v)\<close>.\<close>

fun py_str :: "json \<Rightarrow> string" where
  "py_str JNull = ''None''"
| "py_str (JBool b) = (if b then ''True'' else ''False'')"
| "py_str (JInt i) = str_int i"
| "py_str (JStr s) = s"

text \<open>What a nullable \<open>CharField\<close> stores for a value: NULL for \<open>None\<close>, the text of
  anything else.\<close>

fun char_field :: "json \<Rightarrow> string option" where
  "char_field JNull = None"
| "char_field v = Some (py_str v)"

text \<open>Python's \<open>v == 0\<close>: a number compares by value, \<open>False\<close> is the number 0,
  text and \<open>None\<close> never equal 0.\<close>

fun eq_zero :: "json \<Rightarrow> bool" where
  "eq_zero (JInt i) = (i = 0)"
| "eq_zero (JBool b) = (\<not> b)"
| "eq_zero _ = False"

text \<open>\<open>int(float(amount))\<close> on a two-place decimal given in cents: truncation towards
  zero. (The float step is exact here: a price has at most eight digits.)\<close>

definition int_of_amount :: "int \<Rightarrow> int" where
  "int_of_amount cents = (if 0 \<le> cents then cents div 100 else - ((- cents) div 100))"

definition newline :: string where
  "newline = [char_of (10::nat)]"


section \<open>Data model (apps/classes/models.py)\<close>

datatype status_choice = Pending | Confirmed | Cancelled | Completed | Expired

datatype booking_type_choice = FreeTrial | Monthly | DropIn

datatype payment_status_choice = Unpaid | PaymentPending | Paid | Refunded | Failed

text \<open>
  \<open>Booking\<close>, with the fields the payment pipeline reads or writes. \<open>price\<close> and
  \<open>title\<close> are those of the booking's \<open>karate_class\<close>. The schedule, the attendance
  fields, the verification token and the e-mail flags play no part here.
\<close>

record booking =
  booking_id :: nat
  user :: nat
  booking_type :: booking_type_choice
  status :: status_choice
  payment_status :: payment_status_choice
  amount_paid :: int
  transaction_id :: "string option"
  mpesa_receipt_number :: "string option"
  phone_number :: "string option"
  booking_reference :: string
  payment_attempts :: nat
  last_payment_attempt :: "time option"
  payment_date :: "time option"
  confirmed_at :: "time option"
  cancelled_at :: "time option"
  expires_at :: "time option"
  booking_notes :: string
  price :: int
  title :: string

text \<open>\<open>PaymentLog\<close>: the audit trail. The stored payload, IP address and user agent are
  opaque to every decision and are left out.\<close>

record payment_log =
  log_booking :: nat
  log_transaction_id :: "string option"
  action :: string
  status_code :: "string option"
  created_at :: time

text \<open>The two tables. \<open>PaymentLog.objects.create\<close> appends a row.\<close>

record db =
  bookings :: "booking list"
  payment_logs :: "payment_log list"

definition create_log :: "payment_log \<Rightarrow> db \<Rightarrow> db" where
  "create_log l d = d\<lparr>payment_logs := payment_logs d @ [l]\<rparr>"

text \<open>\<open>Model.save()\<close>: update the row with this primary key, insert when there is none.
  The booking reference and the verification token, which \<open>Booking.save\<close> draws at
  random when they are missing, are given when the row is built.\<close>

definition save :: "booking \<Rightarrow> db \<Rightarrow> db" where
  "save b d =
     d\<lparr>bookings :=
        (if list_ex (\<lambda>x. booking_id x = booking_id b) (bookings d)
         then map (\<lambda>x. if booking_id x = booking_id b then b else x) (bookings d)
         else bookings d @ [b])\<rparr>"

datatype db_error = DoesNotExist | MultipleObjectsReturned

text \<open>\<open>QuerySet.get\<close>: exactly one row, or an exception.\<close>

definition get_one :: "(booking \<Rightarrow> bool) \<Rightarrow> db \<Rightarrow> db_error + booking" where
  "get_one P d =
     (case filter P (bookings d) of
        [] \<Rightarrow> Inl DoesNotExist
      | [b] \<Rightarrow> Inr b
      | _ \<Rightarrow> Inl MultipleObjectsReturned)"

subsection \<open>Booking methods\<close>

text \<open>Each method mutates the object and saves it; the model returns the object and the
  database. The clock readings of one call are one instant.\<close>

definition confirm_payment ::
  "time \<Rightarrow> string option \<Rightarrow> string \<Rightarrow> booking \<Rightarrow> db \<Rightarrow> booking \<times> db" where
  "confirm_payment now tid receipt_number b d =
     (let b' = b\<lparr>payment_status := Paid,
                 status := Confirmed,
                 transaction_id := tid,
                 mpesa_receipt_number := Some receipt_number,
                 payment_date := Some now,
                 confirmed_at := Some now,
                 expires_at := None\<rparr>
      in (b', save b' d))"

definition cancel_booking :: "time \<Rightarrow> string \<Rightarrow> booking \<Rightarrow> db \<Rightarrow> booking \<times> db" where
  "cancel_booking now reason b d =
     (let b1 = b\<lparr>status := Cancelled, cancelled_at := Some now\<rparr>;
          b' = (if reason \<noteq> []
                then b1\<lparr>booking_notes := (if booking_notes b1 \<noteq> []
                                   then booking_notes b1 @ newline @ ''Cancellation reason: '' @ reason
                                   else ''Cancellation reason: '' @ reason)\<rparr>
                else b1)
      in (b', save b' d))"

definition mark_expired :: "booking \<Rightarrow> db \<Rightarrow> booking \<times> db" where
  "mark_expired b d =
     (let b' = b\<lparr>status := Expired,
                 payment_status := Failed,
                 booking_notes := (if booking_notes b \<noteq> []
                           then booking_notes b @ newline @ ''Expired due to payment timeout''
                           else ''Expired due to payment timeout'')\<rparr>
      in (b', save b' d))"

definition is_payment_expired :: "time \<Rightarrow> booking \<Rightarrow> bool" where
  "is_payment_expired now b =
     (case expires_at b of None \<Rightarrow> False | Some e \<Rightarrow> now > e)"


section \<open>Gateway client (apps/classes/payments.py)\<close>

text \<open>
  Everything the client does towards the provider is recorded: the invocation of its two
  public methods and every HTTP request (token, push initiation, status query).
\<close>

datatype gateway_call =
    Call_stk_push
  | Call_query_transaction
  | Http_token
  | Http_stk_push
  | Http_query

text \<open>What the provider answers. A token reply: a timeout, another
  \<open>RequestException\<close> (an error status included), a body with the token, or a body
  without the key \<open>access_token\<close>.\<close>

datatype token_reply = TokenTimeout | TokenRequestException | TokenOk string | TokenNoKey

record push_body =
  ResponseCode :: "json option"
  ResponseDescription :: "json option"
  CheckoutRequestID :: "string option"
  MerchantRequestID :: "string option"

datatype push_reply =
    PushTimeout
  | PushRequestException
  | PushOtherException
  | PushHttp nat push_body

record query_result =
  ResultCode :: "json option"
  MpesaReceiptNumber :: "string option"

datatype query_reply = QueryTimeout | QueryException | QueryOk query_result

text \<open>The provider as seen by one handler: its reply to each attempt of a retry loop
  (indexed by the loop's \<open>attempt\<close>) and to the status query.\<close>

record network =
  token_reply_at :: "nat \<Rightarrow> token_reply"
  push_reply_at :: "nat \<Rightarrow> push_reply"
  query_reply :: query_reply

text \<open>Django's cache: the bearer token and the keys of the cached push requests, each
  with the time it expires.\<close>

record cache =
  mpesa_access_token :: "(string \<times> time) option"
  mpesa_request :: "(string \<times> time) list"

definition cache_get_token :: "time \<Rightarrow> cache \<Rightarrow> string option" where
  "cache_get_token now c =
     (case mpesa_access_token c of
        None \<Rightarrow> None
      | Some (t, e) \<Rightarrow> if now < e then Some t else None)"

definition cache_has_request :: "time \<Rightarrow> string \<Rightarrow> cache \<Rightarrow> bool" where
  "cache_has_request now k c =
     (case map_of (mpesa_request c) k of None \<Rightarrow> False | Some e \<Rightarrow> now < e)"

datatype py_exception = KeyError | TypeError | AttributeError

definition max_retries :: nat where
  "max_retries = 3"

text \<open>The body of \<open>for attempt in range(self.max_retries)\<close> in \<open>get_access_token\<close>.
  Falling out of the loop returns \<open>None\<close>.\<close>

fun token_loop ::
  "time \<Rightarrow> network \<Rightarrow> cache \<Rightarrow> nat list
     \<Rightarrow> (py_exception + string option) \<times> gateway_call list \<times> cache" where
  "token_loop now net c [] = (Inr None, [], c)"
| "token_loop now net c (attempt # rest) =
     (case token_reply_at net attempt of
        TokenOk t \<Rightarrow>
          (Inr (Some t), [Http_token], c\<lparr>mpesa_access_token := Some (t, now + 3000)\<rparr>)
      | TokenNoKey \<Rightarrow> (Inl KeyError, [Http_token], c)
      | TokenTimeout \<Rightarrow>
          (if attempt = max_retries - 1 then (Inr None, [Http_token], c)
           else (case token_loop now net c rest of
                   (r, ev, c') \<Rightarrow> (r, Http_token # ev, c')))
      | TokenRequestException \<Rightarrow>
          (if attempt = max_retries - 1 then (Inr None, [Http_token], c)
           else (case token_loop now net c rest of
                   (r, ev, c') \<Rightarrow> (r, Http_token # ev, c'))))"

definition get_access_token ::
  "time \<Rightarrow> network \<Rightarrow> cache
     \<Rightarrow> (py_exception + string option) \<times> gateway_call list \<times> cache" where
  "get_access_token now net c =
     (case cache_get_token now c of
        Some t \<Rightarrow>
          (if t \<noteq> [] then (Inr (Some t), [], c)
           else token_loop now net c [0..<max_retries])
      | None \<Rightarrow> token_loop now net c [0..<max_retries])"

definition validate_phone_number :: "string \<Rightarrow> string option" where
  "validate_phone_number phone_no =
     (let phone = filter isdigit phone_no
      in if length phone = 12 \<and> startswith phone ''254'' then Some phone
         else if length phone = 10 \<and> startswith phone ''0'' then Some (''254'' @ drop 1 phone)
         else if length phone = 9 then Some (''254'' @ phone)
         else None)"

text \<open>The dictionary \<open>stk_push\<close> returns, without its user-facing message.\<close>

datatype stk_result =
    StkSuccess (checkout_request_id: "string option")
               (merchant_request_id: "string option")
               (result_phone_number: string)
  | StkFailure (error_code: json)

definition str_opt :: "string option \<Rightarrow> string" where
  "str_opt v = (case v of None \<Rightarrow> ''None'' | Some s \<Rightarrow> s)"

text \<open>The retry loop of \<open>stk_push\<close>. A loop that ends without returning makes the
  method return \<open>None\<close>. \<open>_get_user_friendly_error\<close> calls \<open>lower()\<close> on the
  description and raises when it is not text, which the method's outer handler turns
  into SYSTEM_ERROR.\<close>

fun push_loop ::
  "time \<Rightarrow> network \<Rightarrow> cache \<Rightarrow> string \<Rightarrow> nat list
     \<Rightarrow> stk_result option \<times> gateway_call list \<times> cache" where
  "push_loop now net c phone [] = (None, [], c)"
| "push_loop now net c phone (attempt # rest) =
     (case push_reply_at net attempt of
        PushHttp code body \<Rightarrow>
          (if code = 200 then
             (if ResponseCode body = Some (JStr ''0'') then
                (Some (StkSuccess (CheckoutRequestID body) (MerchantRequestID body) phone),
                 [Http_stk_push],
                 c\<lparr>mpesa_request :=
                      (''mpesa_request_'' @ str_opt (CheckoutRequestID body), now + 600)
                        # mpesa_request c\<rparr>)
              else
                (case ResponseDescription body of
                   Some (JStr msg) \<Rightarrow>
                     (Some (StkFailure (case ResponseCode body of
                                          None \<Rightarrow> JStr ''UNKNOWN'' | Some v \<Rightarrow> v)),
                      [Http_stk_push], c)
                 | None \<Rightarrow>
                     (Some (StkFailure (case ResponseCode body of
                                          None \<Rightarrow> JStr ''UNKNOWN'' | Some v \<Rightarrow> v)),
                      [Http_stk_push], c)
                 | Some _ \<Rightarrow>
                     (Some (StkFailure (JStr ''SYSTEM_ERROR'')), [Http_stk_push], c)))
           else if attempt < max_retries - 1 then
             (case push_loop now net c phone rest of
                (r, ev, c') \<Rightarrow> (r, Http_stk_push # ev, c'))
           else (Some (StkFailure (JStr (''HTTP_'' @ str_nat code))), [Http_stk_push], c))
      | PushTimeout \<Rightarrow>
          (if attempt < max_retries - 1 then
             (case push_loop now net c phone rest of
                (r, ev, c') \<Rightarrow> (r, Http_stk_push # ev, c'))
           else (Some (StkFailure (JStr ''TIMEOUT'')), [Http_stk_push], c))
      | PushRequestException \<Rightarrow>
          (if attempt < max_retries - 1 then
             (case push_loop now net c phone rest of
                (r, ev, c') \<Rightarrow> (r, Http_stk_push # ev, c'))
           else (Some (StkFailure (JStr ''NETWORK_ERROR'')), [Http_stk_push], c))
      | PushOtherException \<Rightarrow>
          (Some (StkFailure (JStr ''SYSTEM_ERROR'')), [Http_stk_push], c))"

text \<open>\<open>stk_push(phone_number, amount, ...)\<close>; the reference and the description only
  fill the request body. The amount is in cents.\<close>

definition stk_push ::
  "time \<Rightarrow> network \<Rightarrow> cache \<Rightarrow> string \<Rightarrow> int
     \<Rightarrow> stk_result option \<times> gateway_call list \<times> cache" where
  "stk_push now net c phone_no amount =
     (case validate_phone_number phone_no of
        None \<Rightarrow> (Some (StkFailure (JStr ''INVALID_PHONE'')), [Call_stk_push], c)
      | Some phone \<Rightarrow>
          (if int_of_amount amount < 1
           then (Some (StkFailure (JStr ''INVALID_AMOUNT'')), [Call_stk_push], c)
           else
             (case get_access_token now net c of
                (Inl e, ev, c') \<Rightarrow>
                  (Some (StkFailure (JStr ''SYSTEM_ERROR'')), Call_stk_push # ev, c')
              | (Inr None, ev, c') \<Rightarrow>
                  (Some (StkFailure (JStr ''AUTH_FAILED'')), Call_stk_push # ev, c')
              | (Inr (Some access_token), ev, c') \<Rightarrow>
                  (if access_token = []
                   then (Some (StkFailure (JStr ''AUTH_FAILED'')), Call_stk_push # ev, c')
                   else
                     (case push_loop now net c' phone [0..<max_retries] of
                        (r, ev2, c'') \<Rightarrow> (r, Call_stk_push # ev @ ev2, c''))))))"

text \<open>\<open>query_transaction\<close>: every failure, whatever its kind, is the value \<open>None\<close>.\<close>

definition query_transaction ::
  "time \<Rightarrow> network \<Rightarrow> cache \<Rightarrow> string
     \<Rightarrow> query_result option \<times> gateway_call list \<times> cache" where
  "query_transaction now net c cid =
     (if \<not> cache_has_request now (''mpesa_request_'' @ cid) c
      then (None, [Call_query_transaction], c)
      else
        (case get_access_token now net c of
           (Inl e, ev, c') \<Rightarrow> (None, Call_query_transaction # ev, c')
         | (Inr None, ev, c') \<Rightarrow> (None, Call_query_transaction # ev, c')
         | (Inr (Some access_token), ev, c') \<Rightarrow>
             (if access_token = [] then (None, Call_query_transaction # ev, c')
              else
                (case query_reply net of
                   QueryOk r \<Rightarrow> (Some r, Call_query_transaction # ev @ [Http_query], c')
                 | QueryTimeout \<Rightarrow> (None, Call_query_transaction # ev @ [Http_query], c')
                 | QueryException \<Rightarrow>
                     (None, Call_query_transaction # ev @ [Http_query], c')))))"


subsection \<open>process_class_payment\<close>

text \<open>What \<open>process_class_payment\<close> returns: the free-trial success, the success with the
  checkout request id, or the failure with its error code.\<close>

datatype payment_outcome =
    PayFreeTrial
  | PaySuccess "string option"
  | PayFailure json

text \<open>
  The function mutates the booking it is given, saves it and writes the audit rows. The
  clock is read once per call. A \<open>None\<close> from \<open>stk_push\<close> would raise \<open>TypeError\<close> at
  \<open>result['success']\<close>. Sending the confirmation e-mail belongs to the mail module and
  touches no field of this model.
\<close>

definition process_class_payment ::
  "time \<Rightarrow> network \<Rightarrow> cache \<Rightarrow> booking \<Rightarrow> string \<Rightarrow> db
     \<Rightarrow> (py_exception + payment_outcome) \<times> booking \<times> db \<times> gateway_call list \<times> cache" where
  "process_class_payment now net c b phone_no d =
     (if booking_type b = FreeTrial then
        (let b' = b\<lparr>payment_status := Paid,
                    status := Confirmed,
                    amount_paid := 0,
                    payment_date := Some now,
                    confirmed_at := Some now\<rparr>;
             d' = create_log \<lparr>log_booking = booking_id b', log_transaction_id = None,
                               action = ''free_trial_confirmed'',
                               status_code = Some ''FREE_TRIAL'', created_at = now\<rparr>
                    (save b' d)
         in (Inr PayFreeTrial, b', d', [], c))
      else
        (let amount = price b
         in if amount \<le> 0 then (Inr (PayFailure (JStr ''INVALID_AMOUNT'')), b, d, [], c)
            else
              (let b1 = b\<lparr>payment_attempts := payment_attempts b + 1,
                           last_payment_attempt := Some now\<rparr>;
                   d1 = create_log \<lparr>log_booking = booking_id b1, log_transaction_id = None,
                                     action = ''payment_initiated'',
                                     status_code = Some ''INITIATED'', created_at = now\<rparr>
                          (save b1 d)
               in (case stk_push now net c phone_no amount of
                     (None, ev, c') \<Rightarrow> (Inl TypeError, b1, d1, ev, c')
                   | (Some (StkSuccess cid mid phone), ev, c') \<Rightarrow>
                       (let b2 = b1\<lparr>transaction_id := cid,
                                     phone_number := Some phone,
                                     amount_paid := amount,
                                     payment_status := PaymentPending,
                                     status := Pending,
                                     expires_at := Some (now + 300)\<rparr>;
                            d2 = create_log \<lparr>log_booking = booking_id b2,
                                              log_transaction_id = cid,
                                              action = ''stk_push_sent'',
                                              status_code = Some ''SUCCESS'',
                                              created_at = now\<rparr>
                                   (save b2 d1)
                        in (Inr (PaySuccess cid), b2, d2, ev, c'))
                   | (Some (StkFailure code), ev, c') \<Rightarrow>
                       (let b2 = b1\<lparr>payment_status := Failed,
                                     status := Cancelled,
                                     booking_notes := ''Payment failed: '' @ py_str code,
                                     cancelled_at := Some now\<rparr>;
                            d2 = create_log \<lparr>log_booking = booking_id b2,
                                              log_transaction_id = None,
                                              action = ''stk_push_failed'',
                                              status_code = char_field code,
                                              created_at = now\<rparr>
                                   (save b2 d1)
                        in (Inr (PayFailure code), b2, d2, ev, c'))))))"


section \<open>Views (apps/classes/views.py)\<close>

subsection \<open>BookingCreateView.post, from the creation of the booking on\<close>

text \<open>The row the form and the view build before the first save: the model's defaults,
  status Pending, payment status Unpaid.\<close>

definition new_booking ::
  "nat \<Rightarrow> nat \<Rightarrow> booking_type_choice \<Rightarrow> string \<Rightarrow> string \<Rightarrow> int \<Rightarrow> string \<Rightarrow> booking" where
  "new_booking i u bt ref phone class_price class_title =
     \<lparr>booking_id = i, user = u, booking_type = bt,
      status = Pending, payment_status = Unpaid,
      amount_paid = (if bt \<noteq> FreeTrial then class_price else 0),
      transaction_id = None, mpesa_receipt_number = None,
      phone_number = Some phone, booking_reference = ref,
      payment_attempts = 0, last_payment_attempt = None,
      payment_date = None, confirmed_at = None, cancelled_at = None,
      expires_at = None, booking_notes = [],
      price = class_price, title = class_title\<rparr>"

text \<open>The atomic block of the view: create, log, process the payment, and cancel when
  the payment could not be initiated. An exception rolls the block back.\<close>

definition booking_create ::
  "time \<Rightarrow> network \<Rightarrow> cache \<Rightarrow> nat \<Rightarrow> nat \<Rightarrow> booking_type_choice \<Rightarrow> string \<Rightarrow> string
     \<Rightarrow> int \<Rightarrow> string \<Rightarrow> db \<Rightarrow> db \<times> gateway_call list \<times> cache" where
  "booking_create now net c i u bt ref phone class_price class_title d =
     (let b0 = new_booking i u bt ref phone class_price class_title;
          d0 = create_log \<lparr>log_booking = booking_id b0, log_transaction_id = None,
                            action = ''booking_created'',
                            status_code = Some ''CREATED'', created_at = now\<rparr>
                 (save b0 d)
      in (case process_class_payment now net c b0 phone d0 of
            (Inl e, b1, d1, ev, c') \<Rightarrow> (d, ev, c')
          | (Inr (PayFailure code), b1, d1, ev, c') \<Rightarrow>
              (save (b1\<lparr>status := Cancelled,
                         payment_status := Failed,
                         cancelled_at := Some now,
                         booking_notes := ''Payment initiation failed: '' @ py_str code\<rparr>) d1,
               ev, c')
          | (Inr PayFreeTrial, b1, d1, ev, c') \<Rightarrow> (d1, ev, c')
          | (Inr (PaySuccess cid), b1, d1, ev, c') \<Rightarrow> (d1, ev, c')))"

subsection \<open>payment_pending_view\<close>

definition payment_pending_view :: "time \<Rightarrow> nat \<Rightarrow> nat \<Rightarrow> db \<Rightarrow> db" where
  "payment_pending_view now uid bid d =
     (case get_one (\<lambda>b. booking_id b = bid \<and> user b = uid) d of
        Inl e \<Rightarrow> d
      | Inr b \<Rightarrow>
          (if payment_status b = Paid \<and> status b = Confirmed then d
           else if is_payment_expired now b \<and> payment_status b = PaymentPending
                then snd (mark_expired b d)
           else d))"

subsection \<open>check_payment_status (the poll handler)\<close>

text \<open>The JSON answers of the poll endpoint.\<close>

datatype poll_response =
    PollConfirmed string
  | PollFailed payment_status_choice status_choice
  | PollExpired
  | PollPending
  | PollError nat

text \<open>The \<open>booking_status\<close> and \<open>status\<close> keys of an answer.\<close>

fun reported_booking_status :: "poll_response \<Rightarrow> status_choice option" where
  "reported_booking_status (PollConfirmed r) = Some Confirmed"
| "reported_booking_status (PollFailed ps st) = Some st"
| "reported_booking_status PollExpired = Some Expired"
| "reported_booking_status PollPending = Some Pending"
| "reported_booking_status (PollError n) = None"

fun reported_status :: "poll_response \<Rightarrow> payment_status_choice option" where
  "reported_status (PollConfirmed r) = Some Paid"
| "reported_status (PollFailed ps st) = Some ps"
| "reported_status PollExpired = Some PaymentPending"
| "reported_status PollPending = Some PaymentPending"
| "reported_status (PollError n) = None"

definition check_payment_status ::
  "time \<Rightarrow> network \<Rightarrow> cache \<Rightarrow> nat \<Rightarrow> nat \<Rightarrow> db
     \<Rightarrow> poll_response \<times> db \<times> gateway_call list \<times> cache" where
  "check_payment_status now net c uid bid d =
     (case get_one (\<lambda>b. booking_id b = bid \<and> user b = uid) d of
        Inl DoesNotExist \<Rightarrow> (PollError 404, d, [], c)
      | Inl MultipleObjectsReturned \<Rightarrow> (PollError 500, d, [], c)
      | Inr b \<Rightarrow>
          (if status b = Confirmed \<and> payment_status b = Paid then
             (PollConfirmed (case mpesa_receipt_number b of None \<Rightarrow> [] | Some r \<Rightarrow> r),
              d, [], c)
           else if payment_status b = Failed \<or> status b = Cancelled \<or> status b = Expired then
             (PollFailed (payment_status b) (status b), d, [], c)
           else if is_payment_expired now b then
             (PollExpired,
              (if status b = Pending then snd (mark_expired b d) else d), [], c)
           else
             (case transaction_id b of
                None \<Rightarrow> (PollPending, d, [], c)
              | Some tid \<Rightarrow>
                  (if payment_status b = PaymentPending \<and> status b = Pending \<and> tid \<noteq> [] then
                     (case query_transaction now net c tid of
                        (None, ev, c') \<Rightarrow> (PollPending, d, ev, c')
                      | (Some result, ev, c') \<Rightarrow>
                          (case ResultCode result of
                             None \<Rightarrow> (PollPending, d, ev, c')
                           | Some v \<Rightarrow>
                               (let result_code = py_str v
                                in if result_code = ''0'' then
                                     (let receipt = (case MpesaReceiptNumber result of
                                                       None \<Rightarrow> [] | Some r \<Rightarrow> r);
                                          d1 = snd (confirm_payment now (Some tid) receipt b d);
                                          d2 = create_log
                                                 \<lparr>log_booking = booking_id b,
                                                  log_transaction_id = Some tid,
                                                  action = ''payment_confirmed_via_query'',
                                                  status_code = Some ''0'',
                                                  created_at = now\<rparr> d1
                                      in (PollConfirmed receipt, d2, ev, c'))
                                   else if result_code \<noteq> ''1032'' \<and> result_code \<noteq> ''1'' then
                                     (let b' = b\<lparr>payment_status := Failed,
                                                  status := Cancelled,
                                                  cancelled_at := Some now\<rparr>;
                                          d2 = create_log
                                                 \<lparr>log_booking = booking_id b,
                                                  log_transaction_id = Some tid,
                                                  action = ''payment_failed_via_query'',
                                                  status_code = Some result_code,
                                                  created_at = now\<rparr> (save b' d)
                                      in (PollFailed Failed Cancelled, d2, ev, c'))
                                   else (PollPending, d, ev, c'))))
                   else (PollPending, d, [], c)))))"

subsection \<open>mpesa_callback (the webhook)\<close>

text \<open>The \<open>stkCallback\<close> object of a delivery: the result code (\<open>JNull\<close> when the key
  is missing), the checkout request id, the description and the items of its metadata.
  Every item is taken to carry its \<open>Name\<close> and its \<open>Value\<close>, as the provider sends
  them.\<close>

record stk_callback =
  cb_ResultCode :: json
  cb_CheckoutRequestID :: "string option"
  cb_ResultDesc :: string
  cb_Item :: "(string \<times> string) list"

text \<open>The function the view runs on its worker thread. Every exception inside it is
  logged and dropped.\<close>

definition process_callback :: "time \<Rightarrow> stk_callback \<Rightarrow> db \<Rightarrow> db" where
  "process_callback now data d =
     (case cb_CheckoutRequestID data of
        None \<Rightarrow> d
      | Some cid \<Rightarrow>
          (if cid = [] then d
           else
             (case get_one (\<lambda>b. transaction_id b = Some cid) d of
                Inl e \<Rightarrow> d
              | Inr b \<Rightarrow>
                  (let d1 = create_log
                              \<lparr>log_booking = booking_id b, log_transaction_id = Some cid,
                               action = ''callback_received'',
                               status_code = Some (py_str (cb_ResultCode data)),
                               created_at = now\<rparr> d
                   in if eq_zero (cb_ResultCode data) then
                        (let receipt_number =
                               (case map_of (cb_Item data) ''MpesaReceiptNumber'' of
                                  None \<Rightarrow> ''N/A'' | Some v \<Rightarrow> v);
                             d2 = snd (confirm_payment now (Some cid) receipt_number b d1)
                         in create_log
                              \<lparr>log_booking = booking_id b, log_transaction_id = Some cid,
                               action = ''payment_confirmed'',
                               status_code = Some ''0'', created_at = now\<rparr> d2)
                      else
                        (let b' = b\<lparr>payment_status := Failed,
                                     status := Cancelled,
                                     booking_notes :=
                                       booking_notes b @ newline @ ''Payment failed: ''
                                         @ cb_ResultDesc data @ '' (Code: ''
                                         @ py_str (cb_ResultCode data) @ '')'',
                                     cancelled_at := Some now\<rparr>
                         in create_log
                              \<lparr>log_booking = booking_id b, log_transaction_id = Some cid,
                               action = ''payment_failed'',
                               status_code = Some (py_str (cb_ResultCode data)),
                               created_at = now\<rparr> (save b' d1))))))"

text \<open>The view: 400 on a body that is not JSON, otherwise 200 at once and the processing
  on the side.\<close>

definition mpesa_callback :: "time \<Rightarrow> stk_callback option \<Rightarrow> db \<Rightarrow> nat \<times> db" where
  "mpesa_callback now body d =
     (case body of
        None \<Rightarrow> (400, d)
      | Some data \<Rightarrow> (200, process_callback now data d))"

subsection \<open>cancel_booking_view\<close>

definition cancel_booking_view :: "time \<Rightarrow> nat \<Rightarrow> nat \<Rightarrow> db \<Rightarrow> db" where
  "cancel_booking_view now uid bid d =
     (case get_one (\<lambda>b. booking_id b = bid \<and> user b = uid) d of
        Inl e \<Rightarrow> d
      | Inr b \<Rightarrow>
          (if status b \<noteq> Confirmed \<and> status b \<noteq> Pending then d
           else
             (case cancel_booking now ''User requested cancellation'' b d of
                (b1, d1) \<Rightarrow>
                  (let d2 = create_log
                              \<lparr>log_booking = booking_id b1, log_transaction_id = None,
                               action = ''booking_cancelled'',
                               status_code = Some ''USER_CANCEL'', created_at = now\<rparr> d1
                   in if payment_status b1 = Paid
                      then save (b1\<lparr>payment_status := Refunded\<rparr>) d2
                      else d2))))"

section \<open>Sequences of requests\<close>

text \<open>
  The requests that reach the booking tables: a booking creation (which runs
  \<open>process_class_payment\<close>), a webhook delivery, a poll, a visit of the payment-pending
  page and a cancellation by the user. Each carries the clock reading and, where the
  handler talks to the provider, the provider's behaviour and the cache at that moment.
\<close>

datatype operation =
    Create time network cache nat booking_type_choice string string int string
  | Callback time stk_callback
  | Poll time network cache nat nat
  | PendingPage time nat nat
  | Cancel time nat nat

text \<open>The primary key the database's AutoField gives the next row: one more than every
  key in use.\<close>

definition next_id :: "db \<Rightarrow> nat" where
  "next_id d = Suc (foldr max (map booking_id (bookings d)) 0)"

fun apply_operation :: "operation \<Rightarrow> db \<Rightarrow> db" where
  "apply_operation (Create now net c u bt ref phone class_price class_title) d =
     fst (booking_create now net c (next_id d) u bt ref phone class_price class_title d)"
| "apply_operation (Callback now data) d = process_callback now data d"
| "apply_operation (Poll now net c uid bid) d =
     fst (snd (check_payment_status now net c uid bid d))"
| "apply_operation (PendingPage now uid bid) d = payment_pending_view now uid bid d"
| "apply_operation (Cancel now uid bid) d = cancel_booking_view now uid bid d"

definition run :: "operation list \<Rightarrow> db \<Rightarrow> db" where
  "run ops d = fold apply_operation ops d"

text \<open>The part of invariant I1 that the code keeps: Confirmed exactly when Paid, and a
  Confirmed booking has its confirmation time.\<close>

definition row_ok :: "booking \<Rightarrow> bool" where
  "row_ok b =
     ((status b = Confirmed) = (payment_status b = Paid)
      \<and> (status b \<noteq> Confirmed \<or> confirmed_at b \<noteq> None))"

text \<open>Invariant I1 as the specification states it.\<close>

definition invariant_I1 :: "booking \<Rightarrow> bool" where
  "invariant_I1 b =
     ((status b = Confirmed) = (payment_status b = Paid)
      \<and> (payment_status b = Paid) = (confirmed_at b \<noteq> None))"

definition all_ok :: "db \<Rightarrow> bool" where
  "all_ok d = list_all row_ok (bookings d)"

section \<open>Concrete inputs\<close>

text \<open>Small tables, caches and provider behaviours on which the theorems below are
  run.\<close>

definition empty_db :: db where
  "empty_db = \<lparr>bookings = [], payment_logs = []\<rparr>"

definition empty_cache :: cache where
  "empty_cache = \<lparr>mpesa_access_token = None, mpesa_request = []\<rparr>"

text \<open>A provider that issues tokens and lets every push request time out.\<close>

definition net_timeout :: network where
  "net_timeout = \<lparr>token_reply_at = (\<lambda>n. TokenOk ''token''),
                  push_reply_at = (\<lambda>n. PushTimeout),
                  query_reply = QueryTimeout\<rparr>"

text \<open>A provider that issues tokens and accepts every push request.\<close>

definition net_accept :: network where
  "net_accept = \<lparr>token_reply_at = (\<lambda>n. TokenOk ''token''),
                 push_reply_at = (\<lambda>n. PushHttp 200
                    \<lparr>ResponseCode = Some (JStr ''0''),
                     ResponseDescription = Some (JStr ''Success''),
                     CheckoutRequestID = Some ''ws_CO_1'',
                     MerchantRequestID = Some ''m1''\<rparr>),
                 query_reply = QueryTimeout\<rparr>"

text \<open>A monthly booking for a class of KES 1500 and a free-trial booking, as the view
  creates them.\<close>

definition monthly_booking :: booking where
  "monthly_booking = new_booking 42 7 Monthly ''BK1'' ''0712345678'' 150000 ''Karate''"

definition trial_booking :: booking where
  "trial_booking = new_booking 42 7 FreeTrial ''BK1'' ''254712345678'' 150000 ''Karate''"

text \<open>The monthly booking after an accepted push at time 1000, the table holding it, and
  the cache the push left behind.\<close>

definition pending_booking :: booking where
  "pending_booking =
     monthly_booking\<lparr>payment_attempts := 1, last_payment_attempt := Some 1000,
                     transaction_id := Some ''ws_CO_1'',
                     phone_number := Some ''254712345678'',
                     payment_status := PaymentPending, expires_at := Some 1300\<rparr>"

definition pending_db :: db where
  "pending_db = \<lparr>bookings = [pending_booking], payment_logs = []\<rparr>"

definition warm_cache :: cache where
  "warm_cache = \<lparr>mpesa_access_token = Some (''token'', 4000),
                 mpesa_request = [(''mpesa_request_ws_CO_1'', 1600)]\<rparr>"

text \<open>A provider whose status query answers with the given result code and the receipt
  ABC123.\<close>

definition net_query :: "json \<Rightarrow> network" where
  "net_query v = \<lparr>token_reply_at = (\<lambda>n. TokenOk ''token''),
                  push_reply_at = (\<lambda>n. PushTimeout),
                  query_reply = QueryOk \<lparr>ResultCode = Some v,
                                          MpesaReceiptNumber = Some ''ABC123''\<rparr>\<rparr>"

text \<open>The same booking after a confirmation at time 1100, and its table.\<close>

definition confirmed_booking :: booking where
  "confirmed_booking =
     pending_booking\<lparr>payment_status := Paid, status := Confirmed,
                     mpesa_receipt_number := Some ''ABC123'',
                     payment_date := Some 1100, confirmed_at := Some 1100,
                     expires_at := None\<rparr>"

definition confirmed_db :: db where
  "confirmed_db = \<lparr>bookings = [confirmed_booking], payment_logs = []\<rparr>"

text \<open>A free-trial booking is created at time 1000 and cancelled by its user at time
  2000.\<close>

definition trial_then_cancel :: "operation list" where
  "trial_then_cancel =
     [Create 1000 net_timeout empty_cache 7 FreeTrial ''BK1'' ''254712345678'' 150000 ''Karate'',
      Cancel 2000 7 1]"

text \<open>A webhook delivery reporting success for the request ws_CO_1 with receipt ABC123,
  and one reporting that the user cancelled the prompt.\<close>

definition success_callback :: stk_callback where
  "success_callback =
     \<lparr>cb_ResultCode = JInt 0, cb_CheckoutRequestID = Some ''ws_CO_1'',
      cb_ResultDesc = ''The service request is processed successfully.'',
      cb_Item = [(''Amount'', ''1500''), (''MpesaReceiptNumber'', ''ABC123'')]\<rparr>"

definition failure_callback :: stk_callback where
  "failure_callback =
     \<lparr>cb_ResultCode = JInt 1032, cb_CheckoutRequestID = Some ''ws_CO_1'',
      cb_ResultDesc = ''Request cancelled by user'', cb_Item = []\<rparr>"

text \<open>The table holding the free-trial booking as the view first saves it.\<close>

definition trial_db :: db where
  "trial_db = \<lparr>bookings = [trial_booking], payment_logs = []\<rparr>"

text \<open>The row that sequence leaves behind.\<close>

definition cancelled_trial :: booking where
  "cancelled_trial =
     \<lparr>booking_id = 1, user = 7, booking_type = FreeTrial,
      status = Cancelled, payment_status = Refunded, amount_paid = 0,
      transaction_id = None, mpesa_receipt_number = None,
      phone_number = Some ''254712345678'', booking_reference = ''BK1'',
      payment_attempts = 0, last_payment_attempt = None,
      payment_date = Some 1000, confirmed_at = Some 1000,
      cancelled_at = Some 2000, expires_at = None,
      booking_notes = ''Cancellation reason: User requested cancellation'',
      price = 150000, title = ''Karate''\<rparr>"

text \<open>The table holding the monthly booking as the view first saves it.\<close>

definition monthly_db :: db where
  "monthly_db = \<lparr>bookings = [monthly_booking], payment_logs = []\<rparr>"

text \<open>A monthly booking for a class whose price is 0.\<close>

definition unpriced_booking :: booking where
  "unpriced_booking = new_booking 42 7 Monthly ''BK1'' ''254712345678'' 0 ''Karate''"

section \<open>Facts about the tables\<close>

lemma range_max_retries: "[0..<max_retries] = [0, 1, 2]"
  by (simp add: max_retries_def upt_rec)

lemma bookings_create_log [simp]: "bookings (create_log l d) = bookings d"
  by (simp add: create_log_def)

lemma payment_logs_create_log [simp]: "payment_logs (create_log l d) = payment_logs d @ [l]"
  by (simp add: create_log_def)

lemma payment_logs_save [simp]: "payment_logs (save b d) = payment_logs d"
  by (simp add: save_def)

lemma get_one_create_log [simp]: "get_one P (create_log l d) = get_one P d"
  by (simp add: get_one_def)

lemma get_one_mem: "get_one P d = Inr b \<Longrightarrow> b \<in> set (bookings d) \<and> P b"
proof -
  assume h: "get_one P d = Inr b"
  then have "filter P (bookings d) = [b]"
    by (auto simp: get_one_def split: list.splits)
  then have "b \<in> set (filter P (bookings d))" by simp
  then show ?thesis by simp
qed

lemma get_one_filter: "get_one P d = Inr b \<longleftrightarrow> filter P (bookings d) = [b]"
  by (auto simp: get_one_def split: list.splits)

lemma set_bookings_save: "set (bookings (save b d)) \<subseteq> insert b (set (bookings d))"
  by (auto simp: save_def list_ex_iff)


lemma filter_replace:
  "(\<forall>x\<in>set bs. booking_id x = i \<longrightarrow> P x) \<Longrightarrow> P b' \<Longrightarrow>
     filter P (map (\<lambda>x. if booking_id x = i then b' else x) bs)
       = map (\<lambda>x. if booking_id x = i then b' else x) (filter P bs)"
  by (induction bs) auto

lemma distinct_same_id:
  "distinct (map booking_id bs) \<Longrightarrow> b \<in> set bs \<Longrightarrow> x \<in> set bs \<Longrightarrow>
     booking_id x = booking_id b \<Longrightarrow> x = b"
  by (meson distinct_map inj_onD)

lemma get_one_save:
  assumes dist: "distinct (map booking_id (bookings d))"
    and got: "get_one P d = Inr b"
    and same: "booking_id b' = booking_id b"
    and pb': "P b'"
  shows "get_one P (save b' d) = Inr b'"
proof -
  from got have mem: "b \<in> set (bookings d)" and pb: "P b"
    using get_one_mem by blast+
  from got have flt: "filter P (bookings d) = [b]"
    by (simp add: get_one_filter)
  have ex: "list_ex (\<lambda>x. booking_id x = booking_id b') (bookings d)"
    using mem same by (auto simp: list_ex_iff)
  have all: "\<forall>x\<in>set (bookings d). booking_id x = booking_id b' \<longrightarrow> P x"
    using distinct_same_id [OF dist mem] same pb by auto
  have "filter P (bookings (save b' d))
          = map (\<lambda>x. if booking_id x = booking_id b' then b' else x) (filter P (bookings d))"
    using ex filter_replace [OF all pb'] by (simp add: save_def)
  also have "\<dots> = [b']" using flt same by simp
  finally show ?thesis by (simp add: get_one_filter)
qed

lemma map_id_replace:
  "map (booking_id \<circ> (\<lambda>x. if booking_id x = booking_id b then b else x)) bs
     = map booking_id bs"
  by (induction bs) auto

lemma distinct_save:
  "distinct (map booking_id (bookings d)) \<Longrightarrow>
     distinct (map booking_id (bookings (save b d)))"
  by (auto simp: save_def list_ex_iff map_id_replace)

section \<open>Facts about the gateway client\<close>

lemma push_loop_success_phone:
  "push_loop now net c phone xs = (Some (StkSuccess cid mid ph), ev, c') \<Longrightarrow> ph = phone"
  by (induction xs arbitrary: ev c')
     (auto split: push_reply.splits if_splits option.splits json.splits prod.splits)

lemma stk_push_success_phone:
  "fst (stk_push now net c p a) = Some (StkSuccess cid mid ph) \<Longrightarrow>
     validate_phone_number p = Some ph \<and> 1 \<le> int_of_amount a"
  by (auto simp: stk_push_def split: option.splits if_splits prod.splits sum.splits
           dest: push_loop_success_phone)

lemma scenario_a_push:
  "stk_push 1000 net_accept empty_cache ''0712345678'' 150000
     = (Some (StkSuccess (Some ''ws_CO_1'') (Some ''m1'') ''254712345678''),
        [Call_stk_push, Http_token, Http_stk_push],
        \<lparr>mpesa_access_token = Some (''token'', 4000),
         mpesa_request = [(''mpesa_request_ws_CO_1'', 1600)]\<rparr>)"
  by (simp add: stk_push_def validate_phone_number_def isdigit_def startswith_def
      int_of_amount_def get_access_token_def cache_get_token_def empty_cache_def
      range_max_retries net_accept_def str_opt_def)

lemma query_failure_is_None:
  "query_reply net = QueryTimeout \<or> query_reply net = QueryException \<Longrightarrow>
     fst (query_transaction now net c tid) = None"
  by (auto simp: query_transaction_def split: prod.splits sum.splits option.splits)

section \<open>The concrete inputs, evaluated\<close>

lemma pending_booking_fields:
  "booking_id pending_booking = 42" "user pending_booking = 7"
  "status pending_booking = Pending" "payment_status pending_booking = PaymentPending"
  "transaction_id pending_booking = Some ''ws_CO_1''"
  "expires_at pending_booking = Some 1300"
  by (simp_all add: pending_booking_def monthly_booking_def new_booking_def)

lemma confirmed_booking_fields:
  "booking_id confirmed_booking = 42" "user confirmed_booking = 7"
  "status confirmed_booking = Confirmed" "payment_status confirmed_booking = Paid"
  "transaction_id confirmed_booking = Some ''ws_CO_1''"
  "expires_at confirmed_booking = None" "confirmed_at confirmed_booking = Some 1100"
  by (simp_all add: confirmed_booking_def pending_booking_def monthly_booking_def
      new_booking_def)

lemma get_pending_by_id:
  "get_one (\<lambda>x. booking_id x = 42 \<and> user x = 7) pending_db = Inr pending_booking"
  by (simp add: get_one_def pending_db_def pending_booking_fields)

lemma get_pending_by_tid:
  "get_one (\<lambda>x. transaction_id x = Some ''ws_CO_1'') pending_db = Inr pending_booking"
  by (simp add: get_one_def pending_db_def pending_booking_fields)

lemma get_confirmed_by_id:
  "get_one (\<lambda>x. booking_id x = 42 \<and> user x = 7) confirmed_db = Inr confirmed_booking"
  by (simp add: get_one_def confirmed_db_def confirmed_booking_fields)

lemma distinct_pending_db: "distinct (map booking_id (bookings pending_db))"
  by (simp add: pending_db_def)

lemma query_warm_answer:
  "query_transaction 1100 (net_query v) warm_cache ''ws_CO_1''
     = (Some \<lparr>ResultCode = Some v, MpesaReceiptNumber = Some ''ABC123''\<rparr>,
        [Call_query_transaction, Http_query], warm_cache)"
  by (simp add: query_transaction_def cache_has_request_def warm_cache_def
      get_access_token_def cache_get_token_def net_query_def)

lemma str_int_examples:
  "str_int 1032 = ''1032''" "str_int 17 = ''17''" "str_int 0 = ''0''"
  by code_simp+

lemma pending_not_expired_1100: "\<not> is_payment_expired 1100 pending_booking"
  by (simp add: is_payment_expired_def pending_booking_fields)

section \<open>More facts about saving\<close>

lemma map_replace_none:
  "\<not> list_ex (\<lambda>x. booking_id x = i) bs \<Longrightarrow>
     map (\<lambda>x. if booking_id x = i then b else x) bs = bs"
  by (induction bs) auto

lemma map_replace_twice:
  "booking_id b = i \<Longrightarrow>
     map (\<lambda>x. if booking_id x = i then b' else x)
         (map (\<lambda>x. if booking_id x = i then b else x) bs)
       = map (\<lambda>x. if booking_id x = i then b' else x) bs"
  by (induction bs) auto

lemma list_ex_replace:
  "booking_id b = i \<Longrightarrow>
     list_ex (\<lambda>x. booking_id x = i) (map (\<lambda>x. if booking_id x = i then b else x) bs)
       = list_ex (\<lambda>x. booking_id x = i) bs"
  by (induction bs) auto

lemma save_save: 
  assumes "booking_id b' = booking_id b"
  shows "save b' (save b d) = save b' d"
proof (cases "list_ex (\<lambda>x. booking_id x = booking_id b) (bookings d)")
  case True
  then show ?thesis
    using assms list_ex_replace [of b "booking_id b" "bookings d"]
      map_replace_twice [of b "booking_id b" b' "bookings d"]
    by (simp add: save_def del: map_map)
next
  case False
  then show ?thesis
    using assms map_replace_none [of "booking_id b" "bookings d" b']
    by (simp add: save_def del: map_map)
qed

lemma get_one_save_new:
  assumes "\<not> list_ex (\<lambda>x. booking_id x = booking_id b) (bookings d)"
    and "\<And>x. P x \<Longrightarrow> booking_id x = booking_id b" and "P b"
  shows "get_one P (save b d) = Inr b"
proof -
  have "filter P (bookings d) = []"
    using assms(1,2) by (auto simp: list_ex_iff filter_empty_conv)
  then show ?thesis
    using assms(1,3) by (simp add: get_one_filter save_def)
qed

section \<open>What every sequence of requests preserves\<close>

lemma all_ok_create_log [simp]: "all_ok (create_log l d) = all_ok d"
  by (simp add: all_ok_def)

lemma all_ok_save: "all_ok d \<Longrightarrow> row_ok b \<Longrightarrow> all_ok (save b d)"
  using set_bookings_save [of b d] by (auto simp: all_ok_def list_all_iff)

lemma all_ok_get: "all_ok d \<Longrightarrow> get_one P d = Inr b \<Longrightarrow> row_ok b"
  using get_one_mem [of P d b] by (auto simp: all_ok_def list_all_iff)

lemma save_create_log: "save b (create_log l d) = create_log l (save b d)"
  by (simp add: save_def create_log_def)

lemma all_ok_process_class_payment:
  assumes "all_ok d" and "row_ok b"
  shows "all_ok (fst (snd (snd (process_class_payment now net c b phone d))))"
proof (cases "booking_type b = FreeTrial")
  case True
  with assms show ?thesis
    by (simp add: process_class_payment_def Let_def all_ok_save row_ok_def)
next
  case ft: False
  show ?thesis
  proof (cases "price b \<le> 0")
    case True
    with ft assms show ?thesis
      by (simp add: process_class_payment_def Let_def)
  next
    case False
    obtain r ev c' where stk: "stk_push now net c phone (price b) = (r, ev, c')"
      by (cases "stk_push now net c phone (price b)") auto
    have b1: "row_ok (b\<lparr>payment_attempts := payment_attempts b + 1,
                          last_payment_attempt := Some now\<rparr>)"
      using assms(2) by (simp add: row_ok_def)
    show ?thesis
    proof (cases r)
      case None
      with ft False stk assms b1 show ?thesis
        by (simp add: process_class_payment_def Let_def all_ok_save)
    next
      case (Some res)
      with ft False stk assms b1 show ?thesis
        by (cases res)
           (simp_all add: process_class_payment_def Let_def all_ok_save row_ok_def)
    qed
  qed
qed

lemma all_ok_booking_create:
  assumes "all_ok d"
  shows "all_ok (fst (booking_create now net c i u bt ref phone p t d))"
proof -
  let ?b0 = "new_booking i u bt ref phone p t"
  let ?d0 = "create_log \<lparr>log_booking = booking_id ?b0, log_transaction_id = None,
                            action = ''booking_created'',
                            status_code = Some ''CREATED'', created_at = now\<rparr>
                 (save ?b0 d)"
  have b0: "row_ok ?b0" by (simp add: row_ok_def new_booking_def)
  have d0: "all_ok ?d0" using assms b0 by (simp add: all_ok_save)
  obtain r b1 d1 ev c' where pcp:
    "process_class_payment now net c ?b0 phone ?d0 = (r, b1, d1, ev, c')"
    by (cases "process_class_payment now net c ?b0 phone ?d0") auto
  have d1: "all_ok d1"
    using all_ok_process_class_payment [OF d0 b0, of now net c phone] pcp by simp
  show ?thesis
    using assms d1 pcp
    by (cases r)
       (auto simp: booking_create_def Let_def all_ok_save row_ok_def
             split: payment_outcome.splits)
qed

lemma all_ok_process_callback:
  assumes "all_ok d"
  shows "all_ok (process_callback now data d)"
  using assms
  by (simp add: process_callback_def Let_def confirm_payment_def all_ok_save row_ok_def
           split: option.splits sum.splits)

lemma all_ok_payment_pending_view:
  assumes "all_ok d"
  shows "all_ok (payment_pending_view now uid bid d)"
  using assms
  by (simp add: payment_pending_view_def mark_expired_def Let_def all_ok_save row_ok_def
           split: sum.splits)

lemma all_ok_cancel_booking_view:
  assumes "all_ok d"
  shows "all_ok (cancel_booking_view now uid bid d)"
proof (cases "get_one (\<lambda>b. booking_id b = bid \<and> user b = uid) d")
  case (Inl e)
  with assms show ?thesis by (simp add: cancel_booking_view_def)
next
  case (Inr b)
  with assms have rb: "row_ok b" using all_ok_get by blast
  from Inr assms rb show ?thesis
    by (simp add: cancel_booking_view_def cancel_booking_def Let_def save_create_log
          save_save all_ok_save row_ok_def)
qed

lemma all_ok_check_payment_status:
  assumes "all_ok d"
  shows "all_ok (fst (snd (check_payment_status now net c uid bid d)))"
proof (cases "get_one (\<lambda>b. booking_id b = bid \<and> user b = uid) d")
  case (Inl e)
  with assms show ?thesis by (cases e) (simp_all add: check_payment_status_def)
next
  case (Inr b)
  show ?thesis
  proof (cases "transaction_id b")
    case None
    with Inr assms show ?thesis
      by (simp add: check_payment_status_def mark_expired_def Let_def all_ok_save row_ok_def)
  next
    case (Some tid)
    obtain r ev c' where q: "query_transaction now net c tid = (r, ev, c')"
      by (cases "query_transaction now net c tid") auto
    from Inr assms Some q show ?thesis
      by (simp add: check_payment_status_def mark_expired_def confirm_payment_def Let_def
            all_ok_save row_ok_def split: option.splits)
  qed
qed

lemma all_ok_apply_operation: "all_ok d \<Longrightarrow> all_ok (apply_operation op d)"
  by (cases op)
     (simp_all add: all_ok_booking_create all_ok_process_callback
        all_ok_check_payment_status all_ok_payment_pending_view all_ok_cancel_booking_view)

lemma all_ok_run: "all_ok d \<Longrightarrow> all_ok (run ops d)"
  unfolding run_def
  by (induction ops arbitrary: d) (simp_all add: all_ok_apply_operation)

lemma reachable_row_ok:
  "b \<in> set (bookings (run ops empty_db)) \<Longrightarrow> row_ok b"
  using all_ok_run [of empty_db ops]
  by (simp add: all_ok_def list_all_iff empty_db_def)

section \<open>One successful webhook delivery\<close>

lemma process_callback_success:
  assumes dist: "distinct (map booking_id (bookings d))"
    and cid: "cb_CheckoutRequestID data = Some cid" and ne: "cid \<noteq> []"
    and got: "get_one (\<lambda>x. transaction_id x = Some cid) d = Inr b"
    and ok: "eq_zero (cb_ResultCode data)"
  shows "get_one (\<lambda>x. transaction_id x = Some cid) (process_callback now data d)
           = Inr (b\<lparr>payment_status := Paid, status := Confirmed,
                     transaction_id := Some cid,
                     mpesa_receipt_number :=
                       Some (case map_of (cb_Item data) ''MpesaReceiptNumber'' of
                               None \<Rightarrow> ''N/A'' | Some v \<Rightarrow> v),
                     payment_date := Some now, confirmed_at := Some now,
                     expires_at := None\<rparr>)"
    and "distinct (map booking_id (bookings (process_callback now data d)))"
    and "map action (payment_logs (process_callback now data d))
           = map action (payment_logs d) @ [''callback_received'', ''payment_confirmed'']"
proof -
  let ?b1 = "b\<lparr>payment_status := Paid, status := Confirmed,
                     transaction_id := Some cid,
                     mpesa_receipt_number :=
                       Some (case map_of (cb_Item data) ''MpesaReceiptNumber'' of
                               None \<Rightarrow> ''N/A'' | Some v \<Rightarrow> v),
                     payment_date := Some now, confirmed_at := Some now,
                     expires_at := None\<rparr>"
  have eq: "process_callback now data d
      = create_log \<lparr>log_booking = booking_id b, log_transaction_id = Some cid,
                     action = ''payment_confirmed'', status_code = Some ''0'',
                     created_at = now\<rparr>
          (create_log \<lparr>log_booking = booking_id b, log_transaction_id = Some cid,
                        action = ''callback_received'',
                        status_code = Some (py_str (cb_ResultCode data)),
                        created_at = now\<rparr> (save ?b1 d))"
    using cid ne got ok
    by (simp add: process_callback_def Let_def confirm_payment_def save_create_log)
  have g: "get_one (\<lambda>x. transaction_id x = Some cid) (save ?b1 d) = Inr ?b1"
    by (rule get_one_save [OF dist got]) simp_all
  show "get_one (\<lambda>x. transaction_id x = Some cid) (process_callback now data d) = Inr ?b1"
    using g by (simp add: eq)
  show "distinct (map booking_id (bookings (process_callback now data d)))"
    using distinct_save [OF dist] by (simp add: eq)
  show "map action (payment_logs (process_callback now data d))
           = map action (payment_logs d) @ [''callback_received'', ''payment_confirmed'']"
    by (simp add: eq)
qed

section \<open>Expiry\<close>

lemma mark_expired_row:
  "fst (mark_expired b d)
     = b\<lparr>status := Expired, payment_status := Failed,
         booking_notes := (if booking_notes b \<noteq> []
                           then booking_notes b @ newline @ ''Expired due to payment timeout''
                           else ''Expired due to payment timeout'')\<rparr>"
  "snd (mark_expired b d) = save (fst (mark_expired b d)) d"
  by (simp_all add: mark_expired_def Let_def)

lemma pending_expired_1400: "is_payment_expired 1400 pending_booking"
  by (simp add: is_payment_expired_def pending_booking_fields)

section \<open>Retries\<close>



lemma get_cancelled_trial:
  "get_one (\<lambda>x. booking_id x = 1 \<and> user x = 7) (run trial_then_cancel empty_db)
     = Inr cancelled_trial"
  by code_simp

section \<open>The deadline on the two channels\<close>

lemma poll_after_deadline:
  assumes got: "get_one (\<lambda>x. booking_id x = bid \<and> user x = uid) d = Inr b"
    and dist: "distinct (map booking_id (bookings d))"
    and expired: "is_payment_expired now b"
  shows "case check_payment_status now net c uid bid d of
           (resp, d', ev, c') \<Rightarrow>
             ev = [] \<and> c' = c
             \<and> (status b = Pending \<and> payment_status b \<noteq> Failed \<longrightarrow>
                  resp = PollExpired
                  \<and> d' = snd (mark_expired b d)
                  \<and> get_one (\<lambda>x. booking_id x = bid \<and> user x = uid) d'
                      = Inr (fst (mark_expired b d))
                  \<and> status (fst (mark_expired b d)) = Expired
                  \<and> payment_status (fst (mark_expired b d)) = Failed
                  \<and> fst (snd (check_payment_status later net_l c_l uid bid d')) = d'
                  \<and> payment_pending_view later uid bid d' = d')
             \<and> (\<not> (status b = Pending \<and> payment_status b \<noteq> Failed) \<longrightarrow> d' = d)"
proof -
  from got have pb: "booking_id b = bid \<and> user b = uid"
    using get_one_mem by fastforce
  let ?b' = "fst (mark_expired b d)"
  have g: "get_one (\<lambda>x. booking_id x = bid \<and> user x = uid) (save ?b' d) = Inr ?b'"
    by (rule get_one_save [OF dist got]) (simp_all add: mark_expired_row pb)
  have st: "status ?b' = Expired" "payment_status ?b' = Failed"
    by (simp_all add: mark_expired_row)
  have again: "fst (snd (check_payment_status later net_l c_l uid bid (save ?b' d))) = save ?b' d"
    by (simp add: check_payment_status_def g st)
  have page: "payment_pending_view later uid bid (save ?b' d) = save ?b' d"
    by (simp add: payment_pending_view_def g st)
  show ?thesis
  proof (cases "status b = Pending \<and> payment_status b \<noteq> Failed")
    case True
    then show ?thesis
      using got expired g st again page
      by (simp add: check_payment_status_def mark_expired_row(2))
  next
    case False
    then show ?thesis
      using got expired
      by (auto simp: check_payment_status_def)
  qed
qed

lemma process_callback_row:
  assumes dist: "distinct (map booking_id (bookings d))"
    and cid: "cb_CheckoutRequestID data = Some cid" and ne: "cid \<noteq> []"
    and got: "get_one (\<lambda>x. transaction_id x = Some cid) d = Inr b"
  shows "get_one (\<lambda>x. transaction_id x = Some cid) (process_callback now data d)
           = Inr (if eq_zero (cb_ResultCode data)
                  then b\<lparr>payment_status := Paid, status := Confirmed,
                         transaction_id := Some cid,
                         mpesa_receipt_number :=
                           Some (case map_of (cb_Item data) ''MpesaReceiptNumber'' of
                                   None \<Rightarrow> ''N/A'' | Some v \<Rightarrow> v),
                         payment_date := Some now, confirmed_at := Some now,
                         expires_at := None\<rparr>
                  else b\<lparr>payment_status := Failed, status := Cancelled,
                         booking_notes :=
                           booking_notes b @ newline @ ''Payment failed: ''
                             @ cb_ResultDesc data @ '' (Code: ''
                             @ py_str (cb_ResultCode data) @ '')'',
                         cancelled_at := Some now\<rparr>)"
proof (cases "eq_zero (cb_ResultCode data)")
  case True
  then show ?thesis
    using process_callback_success(1) [OF dist cid ne got True, of now] by simp
next
  case False
  let ?b' = "b\<lparr>payment_status := Failed, status := Cancelled,
                         booking_notes :=
                           booking_notes b @ newline @ ''Payment failed: ''
                             @ cb_ResultDesc data @ '' (Code: ''
                             @ py_str (cb_ResultCode data) @ '')'',
                         cancelled_at := Some now\<rparr>"
  from got have tid: "transaction_id b = Some cid"
    using get_one_mem by fastforce
  have g: "get_one (\<lambda>x. transaction_id x = Some cid) (save ?b' d) = Inr ?b'"
    by (rule get_one_save [OF dist got]) (simp_all add: tid)
  show ?thesis
    using False cid ne got g
    by (simp add: process_callback_def Let_def save_create_log)
qed

section \<open>What the local validation accepts\<close>

lemma int_of_amount_lt_1: "(int_of_amount a < 1) = (a < 100)"
  by (auto simp: int_of_amount_def)

lemma validate_phone_number_None:
  "(validate_phone_number p = None)
     = (\<not> (length (filter isdigit p) = 12 \<and> startswith (filter isdigit p) ''254'')
        \<and> \<not> (length (filter isdigit p) = 10 \<and> startswith (filter isdigit p) ''0'')
        \<and> length (filter isdigit p) \<noteq> 9)"
  by (simp add: validate_phone_number_def Let_def)

lemma validate_phone_number_Some:
  "validate_phone_number p = Some q \<Longrightarrow>
     q = ''254'' @ drop (length (filter isdigit p) - 9) (filter isdigit p) \<and> length q = 12"
proof -
  assume h: "validate_phone_number p = Some q"
  let ?ds = "filter isdigit p"
  consider (a) "length ?ds = 12" "startswith ?ds ''254''" "q = ?ds"
    | (b) "length ?ds = 10" "q = ''254'' @ drop 1 ?ds"
    | (c) "length ?ds = 9" "q = ''254'' @ ?ds"
    using h by (auto simp: validate_phone_number_def Let_def split: if_splits)
  then show ?thesis
  proof cases
    case a
    have l: "length ''254'' = (3::nat)" by simp
    have "take (length ''254'') ?ds = ''254''"
      using a(2) unfolding startswith_def .
    then have "''254'' @ drop (length ''254'') ?ds = ?ds"
      by (metis append_take_drop_id)
    then have "''254'' @ drop 3 ?ds = ?ds"
      unfolding l .
    with a show ?thesis by simp
  next
    case b then show ?thesis by simp
  next
    case c then show ?thesis by simp
  qed
qed

lemma stk_push_http_needs_valid:
  assumes "Http_token \<in> set (fst (snd (stk_push now net c p a)))
           \<or> Http_stk_push \<in> set (fst (snd (stk_push now net c p a)))"
  shows "validate_phone_number p \<noteq> None \<and> 100 \<le> a"
proof (rule ccontr)
  assume "\<not> (validate_phone_number p \<noteq> None \<and> 100 \<le> a)"
  then have "validate_phone_number p = None
      \<or> (validate_phone_number p \<noteq> None \<and> int_of_amount a < 1)"
    unfolding int_of_amount_lt_1 by auto
  then have "fst (snd (stk_push now net c p a)) = [Call_stk_push]"
    by (auto simp: stk_push_def)
  with assms show False by simp
qed

section \<open>The push always answers\<close>

lemma push_loop_last:
  "\<exists>res. fst (push_loop now net c ph (xs @ [max_retries - 1])) = Some res"
proof (induction xs)
  case Nil
  show ?case
    by (cases "push_reply_at net (max_retries - 1)")
       (simp_all split: option.splits json.splits)
next
  case (Cons x xs)
  then show ?case
    by (cases "push_reply_at net x")
       (simp_all add: split_beta split: option.splits json.splits)
qed

lemma push_loop_returns:
  "\<exists>res. fst (push_loop now net c ph [0..<max_retries]) = Some res"
proof -
  have "max_retries - 1 = 2" by (simp add: max_retries_def)
  then have "[0..<max_retries] = [0, 1] @ [max_retries - 1]"
    unfolding range_max_retries by simp
  then show ?thesis
    using push_loop_last [of now net c ph "[0, 1]"] by simp
qed

lemma stk_push_returns: "\<exists>res. fst (stk_push now net c p a) = Some res"
proof (cases "validate_phone_number p")
  case None
  then show ?thesis by (simp add: stk_push_def)
next
  case (Some ph)
  show ?thesis
  proof (cases "int_of_amount a < 1")
    case True
    with Some show ?thesis by (simp add: stk_push_def)
  next
    case False
    obtain r ev c' where t: "get_access_token now net c = (r, ev, c')"
      by (cases "get_access_token now net c") auto
    show ?thesis
      using Some False t push_loop_returns [of now net c' ph]
      by (auto simp: stk_push_def split_beta split: sum.splits option.splits)
  qed
qed

lemma initiation_logs:
  assumes "booking_type b \<noteq> FreeTrial" "0 < price b"
  shows "\<exists>res. fst (stk_push now net c p (price b)) = Some res
           \<and> map action (payment_logs (fst (snd (snd (process_class_payment now net c b p d)))))
               = map action (payment_logs d)
                   @ [''payment_initiated'',
                      case res of StkSuccess x y z \<Rightarrow> ''stk_push_sent''
                                | StkFailure x \<Rightarrow> ''stk_push_failed'']"
proof -
  obtain res where r: "fst (stk_push now net c p (price b)) = Some res"
    using stk_push_returns by blast
  then obtain ev c1 where s: "stk_push now net c p (price b) = (Some res, ev, c1)"
    by (cases "stk_push now net c p (price b)") auto
  have "map action (payment_logs (fst (snd (snd (process_class_payment now net c b p d)))))
               = map action (payment_logs d)
                   @ [''payment_initiated'',
                      case res of StkSuccess x y z \<Rightarrow> ''stk_push_sent''
                                | StkFailure x \<Rightarrow> ''stk_push_failed'']"
    using assms by (cases res) (simp_all add: process_class_payment_def Let_def s)
  with r show ?thesis by blast
qed

section \<open>The claims\<close>

text \<open>
  C1 (idempotent confirmation). The claim is that a second identical webhook delivery
  leaves the booking, \<open>confirmed_at\<close> included, unchanged, and that the two deliveries
  leave one audit entry for the transition and one for the no-op. \<open>process_callback\<close>
  has no check of the booking's current state: it runs \<open>confirm_payment\<close> again. For the
  pending booking of request ws_CO_1, delivered a success at time 1100 and again at time
  1200, \<open>confirmed_at\<close> is 1100 after the first delivery and 1200 after the second,
  and the audit trail holds four entries, two of them \<open>payment_confirmed\<close>.
\<close>

theorem duplicate_delivery_overwrites_confirmed_at:
  "map confirmed_at (bookings (process_callback 1100 success_callback pending_db))
     = [Some 1100]
   \<and> map confirmed_at
        (bookings (process_callback 1200 success_callback
                     (process_callback 1100 success_callback pending_db)))
     = [Some 1200]
   \<and> map action
        (payment_logs (process_callback 1200 success_callback
                         (process_callback 1100 success_callback pending_db)))
     = [''callback_received'', ''payment_confirmed'',
        ''callback_received'', ''payment_confirmed'']"
  by code_simp

text \<open>
  C1, amended. In a table with distinct primary keys, let a delivery with result code 0
  name the request id of exactly one booking. After the first delivery (at \<open>now1\<close>)
  that booking is Confirmed and Paid with \<open>confirmed_at\<close> and \<open>payment_date\<close> equal
  to \<open>now1\<close>. After a second identical delivery (at \<open>now2\<close>) the stored booking
  differs from that one in exactly these two timestamps, which are now \<open>now2\<close>; status,
  payment status, request id and receipt number are as before. Each delivery appends two
  audit entries, \<open>callback_received\<close> and \<open>payment_confirmed\<close>: four in all.
\<close>

theorem second_delivery_reapplies_confirmation:
  assumes dist: "distinct (map booking_id (bookings d))"
    and cid: "cb_CheckoutRequestID data = Some cid" and ne: "cid \<noteq> []"
    and got: "get_one (\<lambda>x. transaction_id x = Some cid) d = Inr b"
    and ok: "eq_zero (cb_ResultCode data)"
  shows "\<exists>b1 b2.
           get_one (\<lambda>x. transaction_id x = Some cid) (process_callback now1 data d) = Inr b1
         \<and> status b1 = Confirmed \<and> payment_status b1 = Paid
         \<and> confirmed_at b1 = Some now1 \<and> payment_date b1 = Some now1
         \<and> get_one (\<lambda>x. transaction_id x = Some cid)
               (process_callback now2 data (process_callback now1 data d)) = Inr b2
         \<and> b2 = b1\<lparr>payment_date := Some now2, confirmed_at := Some now2\<rparr>
         \<and> map action (payment_logs (process_callback now2 data (process_callback now1 data d)))
           = map action (payment_logs d)
               @ [''callback_received'', ''payment_confirmed'',
                  ''callback_received'', ''payment_confirmed'']"
proof -
  note first = process_callback_success [OF dist cid ne got ok, of now1]
  note second = process_callback_success [OF first(2) cid ne first(1) ok, of now2]
  show ?thesis
    using first(1) second(1) second(3) first(3) by simp
qed

theorem second_delivery_reapplies_confirmation_witness:
  "distinct (map booking_id (bookings pending_db))
   \<and> cb_CheckoutRequestID success_callback = Some ''ws_CO_1''
   \<and> get_one (\<lambda>x. transaction_id x = Some ''ws_CO_1'') pending_db = Inr pending_booking
   \<and> eq_zero (cb_ResultCode success_callback)
   \<and> (\<exists>b1 b2.
         get_one (\<lambda>x. transaction_id x = Some ''ws_CO_1'')
           (process_callback 1100 success_callback pending_db) = Inr b1
       \<and> get_one (\<lambda>x. transaction_id x = Some ''ws_CO_1'')
           (process_callback 1200 success_callback
              (process_callback 1100 success_callback pending_db)) = Inr b2
       \<and> status b2 = Confirmed \<and> payment_status b2 = Paid
       \<and> confirmed_at b1 = Some 1100 \<and> confirmed_at b2 = Some 1200)"
proof -
  have h2: "cb_CheckoutRequestID success_callback = Some ''ws_CO_1''"
    by (simp add: success_callback_def)
  have h3: "''ws_CO_1'' \<noteq> []" by simp
  have h5: "eq_zero (cb_ResultCode success_callback)"
    by (simp add: success_callback_def)
  from second_delivery_reapplies_confirmation
         [OF distinct_pending_db h2 h3 get_pending_by_tid h5, of 1100 1200]
  obtain b1 b2 where
    "get_one (\<lambda>x. transaction_id x = Some ''ws_CO_1'')
           (process_callback 1100 success_callback pending_db) = Inr b1"
    "status b1 = Confirmed" "payment_status b1 = Paid" "confirmed_at b1 = Some 1100"
    "get_one (\<lambda>x. transaction_id x = Some ''ws_CO_1'')
           (process_callback 1200 success_callback
              (process_callback 1100 success_callback pending_db)) = Inr b2"
    "b2 = b1\<lparr>payment_date := Some 1200, confirmed_at := Some 1200\<rparr>"
    by blast
  then have "get_one (\<lambda>x. transaction_id x = Some ''ws_CO_1'')
           (process_callback 1100 success_callback pending_db) = Inr b1
       \<and> get_one (\<lambda>x. transaction_id x = Some ''ws_CO_1'')
           (process_callback 1200 success_callback
              (process_callback 1100 success_callback pending_db)) = Inr b2
       \<and> status b2 = Confirmed \<and> payment_status b2 = Paid
       \<and> confirmed_at b1 = Some 1100 \<and> confirmed_at b2 = Some 1200"
    by simp
  then show ?thesis
    using distinct_pending_db h2 get_pending_by_tid h5 by blast
qed

text \<open>
  C2 (expiry monotonicity). The claim is that once the deadline has passed every
  transition attempt other than the expiry is a no-op. The webhook path has no such
  gate: \<open>process_callback\<close> never reads \<open>expires_at\<close> or the current status. The
  pending booking of request ws_CO_1 has its deadline at 1300; a success delivered at
  1400 confirms it, a failure delivered at 1400 cancels it, and a success delivered at
  1500, after a poll at 1400 has already marked it Expired, confirms it as well.
\<close>

theorem webhook_confirms_after_deadline:
  "is_payment_expired 1400 pending_booking
   \<and> map (\<lambda>b. (status b, payment_status b))
         (bookings (process_callback 1400 success_callback pending_db))
       = [(Confirmed, Paid)]
   \<and> map (\<lambda>b. (status b, payment_status b))
         (bookings (process_callback 1400 failure_callback pending_db))
       = [(Cancelled, Failed)]
   \<and> map (\<lambda>b. (status b, payment_status b))
         (bookings (fst (snd (check_payment_status 1400 net_timeout warm_cache 7 42 pending_db))))
       = [(Expired, Failed)]
   \<and> map (\<lambda>b. (status b, payment_status b))
         (bookings (process_callback 1500 success_callback
            (fst (snd (check_payment_status 1400 net_timeout warm_cache 7 42 pending_db)))))
       = [(Confirmed, Paid)]"
  by code_simp

text \<open>
  C2, amended. In a table with distinct primary keys, when the polled booking's deadline
  has passed, the poll handler records no gateway event and leaves the cache alone, so
  it neither confirms nor fails the booking from a query. If the booking is Pending and
  its payment has not Failed, the handler answers "expired" and stores it as Expired with
  payment status Failed; any later poll and any later visit of the payment-pending page
  leave that table unchanged. In every other case the poll leaves the table unchanged.
  The webhook is not gated: in a table with distinct primary keys, every delivery whose
  request id names exactly one booking stores that booking as Confirmed and Paid with
  both timestamps now when the result code is 0, and as Cancelled with payment status
  Failed and \<open>cancelled_at\<close> now otherwise, whatever the booking's deadline and
  status were, Expired included.
\<close>

theorem deadline_gates_poll_not_webhook:
  "(get_one (\<lambda>x. booking_id x = bid \<and> user x = uid) d = Inr b
    \<and> distinct (map booking_id (bookings d))
    \<and> is_payment_expired now b \<longrightarrow>
      (case check_payment_status now net c uid bid d of
           (resp, d', ev, c') \<Rightarrow>
             ev = [] \<and> c' = c
             \<and> (status b = Pending \<and> payment_status b \<noteq> Failed \<longrightarrow>
                  resp = PollExpired
                  \<and> d' = snd (mark_expired b d)
                  \<and> get_one (\<lambda>x. booking_id x = bid \<and> user x = uid) d'
                      = Inr (fst (mark_expired b d))
                  \<and> status (fst (mark_expired b d)) = Expired
                  \<and> payment_status (fst (mark_expired b d)) = Failed
                  \<and> fst (snd (check_payment_status later net_l c_l uid bid d')) = d'
                  \<and> payment_pending_view later uid bid d' = d')
             \<and> (\<not> (status b = Pending \<and> payment_status b \<noteq> Failed) \<longrightarrow> d' = d)))
   \<and> (distinct (map booking_id (bookings d))
       \<and> cb_CheckoutRequestID data = Some cid \<and> cid \<noteq> []
       \<and> get_one (\<lambda>x. transaction_id x = Some cid) d = Inr bt \<longrightarrow>
        get_one (\<lambda>x. transaction_id x = Some cid) (process_callback now data d)
           = Inr (if eq_zero (cb_ResultCode data)
                  then bt\<lparr>payment_status := Paid, status := Confirmed,
                         transaction_id := Some cid,
                         mpesa_receipt_number :=
                           Some (case map_of (cb_Item data) ''MpesaReceiptNumber'' of
                                   None \<Rightarrow> ''N/A'' | Some v \<Rightarrow> v),
                         payment_date := Some now, confirmed_at := Some now,
                         expires_at := None\<rparr>
                  else bt\<lparr>payment_status := Failed, status := Cancelled,
                         booking_notes :=
                           booking_notes bt @ newline @ ''Payment failed: ''
                             @ cb_ResultDesc data @ '' (Code: ''
                             @ py_str (cb_ResultCode data) @ '')'',
                         cancelled_at := Some now\<rparr>))"
proof (intro conjI impI)
  assume h: "get_one (\<lambda>x. booking_id x = bid \<and> user x = uid) d = Inr b
    \<and> distinct (map booking_id (bookings d))
    \<and> is_payment_expired now b"
  show "case check_payment_status now net c uid bid d of
           (resp, d', ev, c') \<Rightarrow>
             ev = [] \<and> c' = c
             \<and> (status b = Pending \<and> payment_status b \<noteq> Failed \<longrightarrow>
                  resp = PollExpired
                  \<and> d' = snd (mark_expired b d)
                  \<and> get_one (\<lambda>x. booking_id x = bid \<and> user x = uid) d'
                      = Inr (fst (mark_expired b d))
                  \<and> status (fst (mark_expired b d)) = Expired
                  \<and> payment_status (fst (mark_expired b d)) = Failed
                  \<and> fst (snd (check_payment_status later net_l c_l uid bid d')) = d'
                  \<and> payment_pending_view later uid bid d' = d')
             \<and> (\<not> (status b = Pending \<and> payment_status b \<noteq> Failed) \<longrightarrow> d' = d)"
    by (rule poll_after_deadline [OF h [THEN conjunct1] h [THEN conjunct2, THEN conjunct1]
          h [THEN conjunct2, THEN conjunct2]])
next
  assume h: "distinct (map booking_id (bookings d))
       \<and> cb_CheckoutRequestID data = Some cid \<and> cid \<noteq> []
       \<and> get_one (\<lambda>x. transaction_id x = Some cid) d = Inr bt"
  show "get_one (\<lambda>x. transaction_id x = Some cid) (process_callback now data d)
           = Inr (if eq_zero (cb_ResultCode data)
                  then bt\<lparr>payment_status := Paid, status := Confirmed,
                         transaction_id := Some cid,
                         mpesa_receipt_number :=
                           Some (case map_of (cb_Item data) ''MpesaReceiptNumber'' of
                                   None \<Rightarrow> ''N/A'' | Some v \<Rightarrow> v),
                         payment_date := Some now, confirmed_at := Some now,
                         expires_at := None\<rparr>
                  else bt\<lparr>payment_status := Failed, status := Cancelled,
                         booking_notes :=
                           booking_notes bt @ newline @ ''Payment failed: ''
                             @ cb_ResultDesc data @ '' (Code: ''
                             @ py_str (cb_ResultCode data) @ '')'',
                         cancelled_at := Some now\<rparr>)"
    by (rule process_callback_row [OF h [THEN conjunct1] h [THEN conjunct2, THEN conjunct1]
          h [THEN conjunct2, THEN conjunct2, THEN conjunct1]
          h [THEN conjunct2, THEN conjunct2, THEN conjunct2]])
qed


theorem deadline_gates_poll_not_webhook_witness:
  "get_one (\<lambda>x. booking_id x = 42 \<and> user x = 7) pending_db = Inr pending_booking
   \<and> distinct (map booking_id (bookings pending_db))
   \<and> is_payment_expired 1400 pending_booking
   \<and> status pending_booking = Pending \<and> payment_status pending_booking \<noteq> Failed
   \<and> fst (check_payment_status 1400 (net_query (JStr ''0'')) warm_cache 7 42 pending_db)
       = PollExpired
   \<and> fst (snd (snd (check_payment_status 1400 (net_query (JStr ''0'')) warm_cache 7 42
                     pending_db))) = []
   \<and> fst (snd (check_payment_status 1500 (net_query (JStr ''0'')) warm_cache 7 42
         (fst (snd (check_payment_status 1400 (net_query (JStr ''0'')) warm_cache 7 42
                      pending_db)))))
       = fst (snd (check_payment_status 1400 (net_query (JStr ''0'')) warm_cache 7 42
                      pending_db))
   \<and> cb_CheckoutRequestID success_callback = Some ''ws_CO_1''
   \<and> cb_CheckoutRequestID failure_callback = Some ''ws_CO_1''
   \<and> get_one (\<lambda>x. transaction_id x = Some ''ws_CO_1'') pending_db = Inr pending_booking
   \<and> (\<exists>r. get_one (\<lambda>x. transaction_id x = Some ''ws_CO_1'')
               (process_callback 1400 success_callback pending_db) = Inr r
            \<and> status r = Confirmed \<and> payment_status r = Paid \<and> confirmed_at r = Some 1400)
   \<and> (\<exists>r. get_one (\<lambda>x. transaction_id x = Some ''ws_CO_1'')
               (process_callback 1400 failure_callback pending_db) = Inr r
            \<and> status r = Cancelled \<and> payment_status r = Failed \<and> cancelled_at r = Some 1400)"
proof -
  have h: "status pending_booking = Pending \<and> payment_status pending_booking \<noteq> Failed"
    by (simp add: pending_booking_fields)
  have ne: "''ws_CO_1'' \<noteq> []" by simp
  have s: "cb_CheckoutRequestID success_callback = Some ''ws_CO_1''"
    "eq_zero (cb_ResultCode success_callback)"
    by (simp_all add: success_callback_def)
  have f: "cb_CheckoutRequestID failure_callback = Some ''ws_CO_1''"
    "\<not> eq_zero (cb_ResultCode failure_callback)"
    by (simp_all add: failure_callback_def)
  note P = deadline_gates_poll_not_webhook
             [where d = pending_db and b = pending_booking and bid = 42 and uid = 7
                and now = 1400 and net = "net_query (JStr ''0'')" and c = warm_cache
                and later = 1500 and net_l = "net_query (JStr ''0'')" and c_l = warm_cache,
              THEN conjunct1, THEN mp,
              OF conjI [OF get_pending_by_id conjI [OF distinct_pending_db pending_expired_1400]]]
  have poll: "fst (check_payment_status 1400 (net_query (JStr ''0'')) warm_cache 7 42 pending_db)
       = PollExpired
   \<and> fst (snd (snd (check_payment_status 1400 (net_query (JStr ''0'')) warm_cache 7 42
                     pending_db))) = []
   \<and> fst (snd (check_payment_status 1500 (net_query (JStr ''0'')) warm_cache 7 42
         (fst (snd (check_payment_status 1400 (net_query (JStr ''0'')) warm_cache 7 42
                      pending_db)))))
       = fst (snd (check_payment_status 1400 (net_query (JStr ''0'')) warm_cache 7 42
                      pending_db))"
    using P h by (auto split: prod.splits)
  note Ws = deadline_gates_poll_not_webhook
             [where d = pending_db and bt = pending_booking and cid = "''ws_CO_1''"
                and now = 1400 and data = success_callback, THEN conjunct2, THEN mp]
  note Wf = deadline_gates_poll_not_webhook
             [where d = pending_db and bt = pending_booking and cid = "''ws_CO_1''"
                and now = 1400 and data = failure_callback, THEN conjunct2, THEN mp]
  have ws: "\<exists>r. get_one (\<lambda>x. transaction_id x = Some ''ws_CO_1'')
               (process_callback 1400 success_callback pending_db) = Inr r
            \<and> status r = Confirmed \<and> payment_status r = Paid \<and> confirmed_at r = Some 1400"
    using Ws [OF conjI [OF distinct_pending_db conjI [OF s(1) conjI [OF ne get_pending_by_tid]]]]
      s(2)
    by simp
  have wf: "\<exists>r. get_one (\<lambda>x. transaction_id x = Some ''ws_CO_1'')
               (process_callback 1400 failure_callback pending_db) = Inr r
            \<and> status r = Cancelled \<and> payment_status r = Failed \<and> cancelled_at r = Some 1400"
    using Wf [OF conjI [OF distinct_pending_db conjI [OF f(1) conjI [OF ne get_pending_by_tid]]]]
      f(2)
    by simp
  show ?thesis
    using get_pending_by_id distinct_pending_db pending_expired_1400 h poll s(1) f(1)
      get_pending_by_tid ws wf
    by blast
qed

text \<open>
  C3 (invariant I1 in every reachable state). The claim is that after any sequence of
  requests a booking is Confirmed if and only if it is Paid, if and only if
  \<open>confirmed_at\<close> is set. The last equivalence fails: \<open>cancel_booking_view\<close> moves a
  confirmed booking to Cancelled and Refunded and, like every other method, never clears
  \<open>confirmed_at\<close>. After a free-trial booking is created and then cancelled by its
  user, the one stored booking is Cancelled, Refunded, with \<open>confirmed_at\<close> still the
  time of the confirmation, and I1 is false of it.
\<close>

theorem cancelled_booking_keeps_confirmed_at:
  "map (\<lambda>b. (status b, payment_status b, confirmed_at b, invariant_I1 b))
       (bookings (run trial_then_cancel empty_db))
     = [(Cancelled, Refunded, Some 1000, False)]"
  by code_simp

text \<open>
  C3, amended. After any sequence of requests (creation with payment processing, webhook
  delivery, poll, payment-pending page, user cancellation) starting from empty tables,
  every stored booking is Confirmed if and only if it is Paid, and every Confirmed
  booking has \<open>confirmed_at\<close> set.
\<close>

theorem reachable_confirmed_iff_paid:
  "\<forall>b\<in>set (bookings (run ops empty_db)).
      (status b = Confirmed \<longleftrightarrow> payment_status b = Paid)
      \<and> (status b = Confirmed \<longrightarrow> confirmed_at b \<noteq> None)"
  using reachable_row_ok by (auto simp: row_ok_def)

theorem reachable_confirmed_iff_paid_witness:
  "bookings (run (take 1 trial_then_cancel) empty_db) \<noteq> []
   \<and> list_all (\<lambda>b. status b = Confirmed \<and> payment_status b = Paid \<and> confirmed_at b \<noteq> None)
        (bookings (run (take 1 trial_then_cancel) empty_db))
   \<and> list_all (\<lambda>b. (status b = Confirmed) = (payment_status b = Paid))
        (bookings (run trial_then_cancel empty_db))"
proof -
  have a: "bookings (run (take 1 trial_then_cancel) empty_db) \<noteq> []"
    by code_simp
  have b: "list_all (\<lambda>b. status b = Confirmed) (bookings (run (take 1 trial_then_cancel) empty_db))"
    by code_simp
  show ?thesis
    using a b reachable_confirmed_iff_paid [of "take 1 trial_then_cancel"]
      reachable_confirmed_iff_paid [of trial_then_cancel]
    by (auto simp: list_all_iff)
qed

text \<open>
  C4 (no gateway re-query after terminal). When the stored booking is Confirmed,
  Cancelled or Expired, or its payment has Failed, the poll handler records no gateway
  event at all (\<open>query_transaction\<close> is not invoked and no HTTP request is sent),
  whatever the provider and the cache would answer, and it changes neither the tables
  nor the cache; this holds for any table whatever. In every table that a sequence of
  requests produces from empty tables, the handler's answer for such a booking is
  "confirmed" with the stored receipt number when it is Confirmed, and "failed" with the
  stored payment status and status otherwise, so the answer reports exactly the stored
  status and payment status.
\<close>

theorem no_query_after_terminal:
  "(get_one (\<lambda>x. booking_id x = bid \<and> user x = uid) d = Inr b
    \<and> (status b = Confirmed \<or> status b = Cancelled \<or> status b = Expired
        \<or> payment_status b = Failed) \<longrightarrow>
      (case check_payment_status now net c uid bid d of
         (resp, d', ev, c') \<Rightarrow> ev = [] \<and> d' = d \<and> c' = c))
   \<and> (get_one (\<lambda>x. booking_id x = bid \<and> user x = uid) (run ops empty_db) = Inr b
       \<and> (status b = Confirmed \<or> status b = Cancelled \<or> status b = Expired
           \<or> payment_status b = Failed) \<longrightarrow>
        check_payment_status now net c uid bid (run ops empty_db)
          = (if status b = Confirmed
             then PollConfirmed (case mpesa_receipt_number b of None \<Rightarrow> [] | Some r \<Rightarrow> r)
             else PollFailed (payment_status b) (status b),
             run ops empty_db, [], c)
        \<and> reported_booking_status
              (fst (check_payment_status now net c uid bid (run ops empty_db)))
            = Some (status b)
        \<and> reported_status
              (fst (check_payment_status now net c uid bid (run ops empty_db)))
            = Some (payment_status b))"
proof (intro conjI impI)
  assume "get_one (\<lambda>x. booking_id x = bid \<and> user x = uid) d = Inr b
    \<and> (status b = Confirmed \<or> status b = Cancelled \<or> status b = Expired
        \<or> payment_status b = Failed)"
  then show "case check_payment_status now net c uid bid d of
         (resp, d', ev, c') \<Rightarrow> ev = [] \<and> d' = d \<and> c' = c"
    by (auto simp: check_payment_status_def split: option.splits)
next
  assume h: "get_one (\<lambda>x. booking_id x = bid \<and> user x = uid) (run ops empty_db) = Inr b
       \<and> (status b = Confirmed \<or> status b = Cancelled \<or> status b = Expired
           \<or> payment_status b = Failed)"
  then have "b \<in> set (bookings (run ops empty_db))"
    using get_one_mem by blast
  then have ok: "(status b = Confirmed) = (payment_status b = Paid)"
    using reachable_row_ok by (auto simp: row_ok_def)
  have eq: "check_payment_status now net c uid bid (run ops empty_db)
          = (if status b = Confirmed
             then PollConfirmed (case mpesa_receipt_number b of None \<Rightarrow> [] | Some r \<Rightarrow> r)
             else PollFailed (payment_status b) (status b),
             run ops empty_db, [], c)"
    using h ok by (auto simp: check_payment_status_def)
  show "check_payment_status now net c uid bid (run ops empty_db)
          = (if status b = Confirmed
             then PollConfirmed (case mpesa_receipt_number b of None \<Rightarrow> [] | Some r \<Rightarrow> r)
             else PollFailed (payment_status b) (status b),
             run ops empty_db, [], c)"
    by (rule eq)
  show "reported_booking_status
              (fst (check_payment_status now net c uid bid (run ops empty_db)))
            = Some (status b)"
    by (simp add: eq)
  show "reported_status
              (fst (check_payment_status now net c uid bid (run ops empty_db)))
            = Some (payment_status b)"
    using ok by (simp add: eq)
qed

theorem no_query_after_terminal_witness:
  "get_one (\<lambda>x. booking_id x = 42 \<and> user x = 7) confirmed_db = Inr confirmed_booking
   \<and> status confirmed_booking = Confirmed
   \<and> (case check_payment_status 1200 (net_query (JStr ''0'')) warm_cache 7 42 confirmed_db of
         (resp, d', ev, c') \<Rightarrow> ev = [] \<and> d' = confirmed_db \<and> c' = warm_cache)
   \<and> get_one (\<lambda>x. booking_id x = 1 \<and> user x = 7) (run trial_then_cancel empty_db)
       = Inr cancelled_trial
   \<and> status cancelled_trial = Cancelled
   \<and> check_payment_status 3000 (net_query (JStr ''0'')) warm_cache 7 1
         (run trial_then_cancel empty_db)
       = (PollFailed Refunded Cancelled, run trial_then_cancel empty_db, [], warm_cache)"
proof -
  have t1: "status confirmed_booking = Confirmed \<or> status confirmed_booking = Cancelled
            \<or> status confirmed_booking = Expired \<or> payment_status confirmed_booking = Failed"
    by (simp add: confirmed_booking_fields)
  have f: "status cancelled_trial = Cancelled" "payment_status cancelled_trial = Refunded"
    by (simp_all add: cancelled_trial_def)
  have t2: "status cancelled_trial = Confirmed \<or> status cancelled_trial = Cancelled
            \<or> status cancelled_trial = Expired \<or> payment_status cancelled_trial = Failed"
    by (simp add: f)
  have a: "case check_payment_status 1200 (net_query (JStr ''0'')) warm_cache 7 42 confirmed_db of
         (resp, d', ev, c') \<Rightarrow> ev = [] \<and> d' = confirmed_db \<and> c' = warm_cache"
    by (rule no_query_after_terminal [where ops = "[]", THEN conjunct1, THEN mp,
          OF conjI [OF get_confirmed_by_id t1]])
  have b: "check_payment_status 3000 (net_query (JStr ''0'')) warm_cache 7 1
         (run trial_then_cancel empty_db)
       = (if status cancelled_trial = Confirmed
             then PollConfirmed (case mpesa_receipt_number cancelled_trial of
                                   None \<Rightarrow> [] | Some r \<Rightarrow> r)
             else PollFailed (payment_status cancelled_trial) (status cancelled_trial),
             run trial_then_cancel empty_db, [], warm_cache)"
    by (rule no_query_after_terminal [where d = empty_db and b = cancelled_trial,
          THEN conjunct2, THEN mp,
          OF conjI [OF get_cancelled_trial t2], THEN conjunct1])
  show ?thesis
    using get_confirmed_by_id confirmed_booking_fields(3) a get_cancelled_trial f b
    by simp
qed

text \<open>
  C5 (a failed status query is never a negative result). For a booking that is Pending
  with payment status Pending, has a transaction id and is inside its payment window
  (the bookings for which the poll handler queries the provider): a status query that
  times out or raises makes \<open>query_transaction\<close> return \<open>None\<close>, and whenever
  \<open>query_transaction\<close> returns \<open>None\<close> (these failures, a missing token, a cache
  miss) the poll handler answers "still pending" and leaves both tables as they were.
\<close>

theorem failed_query_is_still_pending:
  assumes "get_one (\<lambda>x. booking_id x = bid \<and> user x = uid) d = Inr b"
    and "status b = Pending" and "payment_status b = PaymentPending"
    and "transaction_id b = Some tid" and "tid \<noteq> []"
    and "\<not> is_payment_expired now b"
  shows "(query_reply net = QueryTimeout \<or> query_reply net = QueryException \<longrightarrow>
            fst (query_transaction now net c tid) = None)
         \<and> (fst (query_transaction now net c tid) = None \<longrightarrow>
              (case check_payment_status now net c uid bid d of
                 (resp, d', ev, c') \<Rightarrow> resp = PollPending \<and> d' = d))"
proof (intro conjI impI)
  assume "query_reply net = QueryTimeout \<or> query_reply net = QueryException"
  then show "fst (query_transaction now net c tid) = None"
    by (rule query_failure_is_None)
next
  assume "fst (query_transaction now net c tid) = None"
  with assms show "case check_payment_status now net c uid bid d of
                 (resp, d', ev, c') \<Rightarrow> resp = PollPending \<and> d' = d"
    by (cases "query_transaction now net c tid")
       (simp add: check_payment_status_def)
qed

theorem failed_query_is_still_pending_witness:
  "get_one (\<lambda>x. booking_id x = 42 \<and> user x = 7) pending_db = Inr pending_booking
   \<and> status pending_booking = Pending \<and> payment_status pending_booking = PaymentPending
   \<and> transaction_id pending_booking = Some ''ws_CO_1''
   \<and> \<not> is_payment_expired 1100 pending_booking
   \<and> query_reply net_timeout = QueryTimeout
   \<and> fst (query_transaction 1100 net_timeout warm_cache ''ws_CO_1'') = None
   \<and> (case check_payment_status 1100 net_timeout warm_cache 7 42 pending_db of
         (resp, d', ev, c') \<Rightarrow> resp = PollPending \<and> d' = pending_db)"
proof -
  have h6: "\<not> is_payment_expired 1100 pending_booking"
    by (simp add: is_payment_expired_def pending_booking_fields)
  have h7: "query_reply net_timeout = QueryTimeout"
    by (simp add: net_timeout_def)
  note T = failed_query_is_still_pending [OF get_pending_by_id pending_booking_fields(3)
      pending_booking_fields(4) pending_booking_fields(5) _ h6,
      where net = net_timeout and c = warm_cache]
  have ne: "''ws_CO_1'' \<noteq> []" by simp
  have q: "fst (query_transaction 1100 net_timeout warm_cache ''ws_CO_1'') = None"
    using T [OF ne, THEN conjunct1] h7 by simp
  have p: "case check_payment_status 1100 net_timeout warm_cache 7 42 pending_db of
         (resp, d', ev, c') \<Rightarrow> resp = PollPending \<and> d' = pending_db"
    by (rule T [OF ne, THEN conjunct2, THEN mp, OF q])
  show ?thesis
    using get_pending_by_id pending_booking_fields h6 h7 q p by simp
qed

text \<open>
  C6 (free-trial bypass). For every booking of type Free Trial, \<open>process_class_payment\<close>
  returns the free-trial success together with the given booking changed in exactly
  these fields: payment status Paid, status Confirmed, amount paid 0, payment date and
  \<open>confirmed_at\<close> the current time. It saves that row, appends the one audit entry
  \<open>free_trial_confirmed\<close>, records no gateway event at all (no method of the client is
  invoked, no token request, no push, no status query) and leaves the cache as it was.
  In a table with distinct primary keys that already holds a row with the booking's key,
  the row read back afterwards is that changed booking. Through the view: creating a
  free-trial booking under an unused key records no gateway event, stores the new
  booking Confirmed and Paid with amount 0 and both timestamps now, and appends the
  entries \<open>booking_created\<close> and \<open>free_trial_confirmed\<close>.
\<close>

theorem free_trial_bypass:
  "(booking_type b = FreeTrial \<longrightarrow>
      process_class_payment now net c b phone_no d
        = (Inr PayFreeTrial,
           b\<lparr>payment_status := Paid, status := Confirmed, amount_paid := 0,
             payment_date := Some now, confirmed_at := Some now\<rparr>,
           create_log \<lparr>log_booking = booking_id b, log_transaction_id = None,
                       action = ''free_trial_confirmed'',
                       status_code = Some ''FREE_TRIAL'', created_at = now\<rparr>
             (save (b\<lparr>payment_status := Paid, status := Confirmed, amount_paid := 0,
                      payment_date := Some now, confirmed_at := Some now\<rparr>) d),
           [], c))
   \<and> (booking_type b = FreeTrial \<and> distinct (map booking_id (bookings d))
        \<and> get_one (\<lambda>x. booking_id x = booking_id b) d = Inr b0 \<longrightarrow>
        get_one (\<lambda>x. booking_id x = booking_id b)
            (fst (snd (snd (process_class_payment now net c b phone_no d))))
          = Inr (b\<lparr>payment_status := Paid, status := Confirmed, amount_paid := 0,
                   payment_date := Some now, confirmed_at := Some now\<rparr>))
   \<and> (distinct (map booking_id (bookings d))
        \<and> \<not> list_ex (\<lambda>x. booking_id x = i) (bookings d) \<longrightarrow>
        snd (booking_create now net c i u FreeTrial ref phone class_price class_title d)
          = ([], c)
        \<and> get_one (\<lambda>x. booking_id x = i)
              (fst (booking_create now net c i u FreeTrial ref phone class_price class_title d))
          = Inr ((new_booking i u FreeTrial ref phone class_price class_title)
                   \<lparr>payment_status := Paid, status := Confirmed, amount_paid := 0,
                    payment_date := Some now, confirmed_at := Some now\<rparr>)
        \<and> map action (payment_logs
              (fst (booking_create now net c i u FreeTrial ref phone class_price class_title d)))
          = map action (payment_logs d) @ [''booking_created'', ''free_trial_confirmed''])"
proof (intro conjI impI)
  assume "booking_type b = FreeTrial"
  then show "process_class_payment now net c b phone_no d
        = (Inr PayFreeTrial,
           b\<lparr>payment_status := Paid, status := Confirmed, amount_paid := 0,
             payment_date := Some now, confirmed_at := Some now\<rparr>,
           create_log \<lparr>log_booking = booking_id b, log_transaction_id = None,
                       action = ''free_trial_confirmed'',
                       status_code = Some ''FREE_TRIAL'', created_at = now\<rparr>
             (save (b\<lparr>payment_status := Paid, status := Confirmed, amount_paid := 0,
                      payment_date := Some now, confirmed_at := Some now\<rparr>) d),
           [], c)"
    by (simp add: process_class_payment_def Let_def)
next
  assume h: "booking_type b = FreeTrial \<and> distinct (map booking_id (bookings d))
        \<and> get_one (\<lambda>x. booking_id x = booking_id b) d = Inr b0"
  then have id0: "booking_id b0 = booking_id b"
    using get_one_mem by fastforce
  have "get_one (\<lambda>x. booking_id x = booking_id b)
          (save (b\<lparr>payment_status := Paid, status := Confirmed, amount_paid := 0,
                   payment_date := Some now, confirmed_at := Some now\<rparr>) d)
        = Inr (b\<lparr>payment_status := Paid, status := Confirmed, amount_paid := 0,
                   payment_date := Some now, confirmed_at := Some now\<rparr>)"
    using h id0 by (intro get_one_save [where b = b0]) simp_all
  with h show "get_one (\<lambda>x. booking_id x = booking_id b)
            (fst (snd (snd (process_class_payment now net c b phone_no d))))
          = Inr (b\<lparr>payment_status := Paid, status := Confirmed, amount_paid := 0,
                   payment_date := Some now, confirmed_at := Some now\<rparr>)"
    by (simp add: process_class_payment_def Let_def)
next
  let ?b0 = "new_booking i u FreeTrial ref phone class_price class_title"
  let ?b1 = "?b0\<lparr>payment_status := Paid, status := Confirmed, amount_paid := 0,
                    payment_date := Some now, confirmed_at := Some now\<rparr>"
  assume h: "distinct (map booking_id (bookings d))
        \<and> \<not> list_ex (\<lambda>x. booking_id x = i) (bookings d)"
  have f: "booking_id ?b0 = i" "booking_type ?b0 = FreeTrial"
    by (simp_all add: new_booking_def)
  have g0: "get_one (\<lambda>x. booking_id x = i) (save ?b0 d) = Inr ?b0"
    using h f by (intro get_one_save_new) simp_all
  have d0: "distinct (map booking_id (bookings (save ?b0 d)))"
    using h by (simp add: distinct_save)
  have g1: "get_one (\<lambda>x. booking_id x = i) (save ?b1 (save ?b0 d)) = Inr ?b1"
    using f by (intro get_one_save [OF d0 g0]) simp_all
  have eq: "booking_create now net c i u FreeTrial ref phone class_price class_title d
      = (create_log \<lparr>log_booking = i, log_transaction_id = None,
                       action = ''free_trial_confirmed'',
                       status_code = Some ''FREE_TRIAL'', created_at = now\<rparr>
           (save ?b1
              (create_log \<lparr>log_booking = i, log_transaction_id = None,
                            action = ''booking_created'',
                            status_code = Some ''CREATED'', created_at = now\<rparr>
                 (save ?b0 d))), [], c)"
    using f by (simp add: booking_create_def process_class_payment_def Let_def)
  show "snd (booking_create now net c i u FreeTrial ref phone class_price class_title d)
          = ([], c)"
    by (simp add: eq)
  show "get_one (\<lambda>x. booking_id x = i)
              (fst (booking_create now net c i u FreeTrial ref phone class_price class_title d))
          = Inr ?b1"
    using g1 by (simp add: eq save_create_log)
  show "map action (payment_logs
              (fst (booking_create now net c i u FreeTrial ref phone class_price class_title d)))
          = map action (payment_logs d) @ [''booking_created'', ''free_trial_confirmed'']"
    by (simp add: eq)
qed

theorem free_trial_bypass_witness:
  "booking_type trial_booking = FreeTrial
   \<and> process_class_payment 1000 net_timeout empty_cache trial_booking ''254712345678'' trial_db
       = (Inr PayFreeTrial,
          trial_booking\<lparr>payment_status := Paid, status := Confirmed, amount_paid := 0,
             payment_date := Some 1000, confirmed_at := Some 1000\<rparr>,
          create_log \<lparr>log_booking = booking_id trial_booking, log_transaction_id = None,
                       action = ''free_trial_confirmed'',
                       status_code = Some ''FREE_TRIAL'', created_at = 1000\<rparr>
            (save (trial_booking\<lparr>payment_status := Paid, status := Confirmed,
                     amount_paid := 0, payment_date := Some 1000,
                     confirmed_at := Some 1000\<rparr>) trial_db),
          [], empty_cache)
   \<and> distinct (map booking_id (bookings trial_db))
   \<and> get_one (\<lambda>x. booking_id x = booking_id trial_booking) trial_db = Inr trial_booking
   \<and> get_one (\<lambda>x. booking_id x = booking_id trial_booking)
         (fst (snd (snd (process_class_payment 1000 net_timeout empty_cache trial_booking
                           ''254712345678'' trial_db))))
       = Inr (trial_booking\<lparr>payment_status := Paid, status := Confirmed, amount_paid := 0,
                payment_date := Some 1000, confirmed_at := Some 1000\<rparr>)
   \<and> distinct (map booking_id (bookings empty_db))
   \<and> \<not> list_ex (\<lambda>x. booking_id x = 5) (bookings empty_db)
   \<and> snd (booking_create 1000 net_timeout empty_cache 5 7 FreeTrial ''BK1'' ''254712345678''
             150000 ''Karate'' empty_db) = ([], empty_cache)
   \<and> map action (payment_logs
         (fst (booking_create 1000 net_timeout empty_cache 5 7 FreeTrial ''BK1''
                 ''254712345678'' 150000 ''Karate'' empty_db)))
       = [''booking_created'', ''free_trial_confirmed'']"
proof -
  have h1: "booking_type trial_booking = FreeTrial"
    by (simp add: trial_booking_def new_booking_def)
  have h2: "distinct (map booking_id (bookings trial_db))"
    by (simp add: trial_db_def)
  have h3: "get_one (\<lambda>x. booking_id x = booking_id trial_booking) trial_db = Inr trial_booking"
    by (simp add: get_one_def trial_db_def)
  have h4: "distinct (map booking_id (bookings empty_db))"
    and h5: "\<not> list_ex (\<lambda>x. booking_id x = 5) (bookings empty_db)"
    and h6: "payment_logs empty_db = []"
    by (simp_all add: empty_db_def)
  note T = free_trial_bypass [where b = trial_booking and now = 1000 and net = net_timeout
      and c = empty_cache and phone_no = "''254712345678''" and d = trial_db
      and b0 = trial_booking]
  note U = free_trial_bypass [where d = empty_db and now = 1000 and net = net_timeout
      and c = empty_cache and i = 5 and u = 7 and ref = "''BK1''"
      and phone = "''254712345678''" and class_price = 150000 and class_title = "''Karate''",
      THEN conjunct2, THEN conjunct2, THEN mp, OF conjI [OF h4 h5]]
  show ?thesis
    using h1 h2 h3 h4 h5 T [THEN conjunct1, THEN mp, OF h1]
      T [THEN conjunct2, THEN conjunct1, THEN mp, OF conjI [OF h1 conjI [OF h2 h3]]]
      U h6
    by simp
qed

text \<open>
  C7 (local validation precedes any network call). The claim has the amount validated
  as a positive integer. \<open>stk_push\<close> computes \<open>int(float(amount))\<close> and rejects only
  when that is less than 1, so an amount with a fraction is truncated and accepted. The
  amount 1.50 (150 in cents, a price the class model can hold) truncates to 1; with a
  valid phone number the token is requested and the push is sent, and no INVALID_AMOUNT
  is returned.
\<close>

theorem fractional_amount_is_accepted:
  "int_of_amount 150 = 1
   \<and> stk_push 1000 net_accept empty_cache ''0712345678'' 150
       = (Some (StkSuccess (Some ''ws_CO_1'') (Some ''m1'') ''254712345678''),
          [Call_stk_push, Http_token, Http_stk_push],
          \<lparr>mpesa_access_token = Some (''token'', 4000),
           mpesa_request = [(''mpesa_request_ws_CO_1'', 1600)]\<rparr>)"
  by code_simp

text \<open>
  C7, amended. \<open>validate_phone_number\<close> turns "0712345678" into "254712345678". With
  the digit characters of the input counted as \<open>str.isdigit\<close> counts them, it rejects
  exactly when they are neither twelve starting with 254, nor ten starting with 0, nor
  nine, and what it accepts comes back as 254 followed by the last nine of them, twelve
  characters in all. When the phone number is rejected, \<open>stk_push\<close> returns
  INVALID_PHONE, and when the amount is below 1.00 (it truncates to less than 1) it
  returns INVALID_AMOUNT; in both cases the only recorded gateway event is the
  invocation itself (no HTTP request) and the cache is unchanged. Conversely, an HTTP
  request on record means that the phone number was accepted and the amount was at
  least 1.00. When the push for a paid booking of positive price is accepted,
  \<open>process_class_payment\<close> returns the success with the request id and the given
  booking changed in exactly these fields: one more payment attempt, last attempt now,
  the returned request id, the normalised phone number, amount paid the price, payment
  status Pending, status Pending, \<open>expires_at\<close> now plus 300 seconds. It saves that row
  and appends \<open>payment_initiated\<close> and \<open>stk_push_sent\<close>; in a table with distinct
  primary keys that holds a row with the booking's key, the row read back afterwards is
  that changed booking.
\<close>

theorem local_validation_precedes_network:
  "validate_phone_number ''0712345678'' = Some ''254712345678''
   \<and> (validate_phone_number p = None)
       = (\<not> (length (filter isdigit p) = 12 \<and> startswith (filter isdigit p) ''254'')
          \<and> \<not> (length (filter isdigit p) = 10 \<and> startswith (filter isdigit p) ''0'')
          \<and> length (filter isdigit p) \<noteq> 9)
   \<and> (validate_phone_number p = Some q \<longrightarrow>
        q = ''254'' @ drop (length (filter isdigit p) - 9) (filter isdigit p)
        \<and> length q = 12)
   \<and> (validate_phone_number p = None \<longrightarrow>
        stk_push now net c p a = (Some (StkFailure (JStr ''INVALID_PHONE'')), [Call_stk_push], c))
   \<and> (validate_phone_number p \<noteq> None \<and> a < 100 \<longrightarrow>
        stk_push now net c p a = (Some (StkFailure (JStr ''INVALID_AMOUNT'')), [Call_stk_push], c))
   \<and> (Http_token \<in> set (fst (snd (stk_push now net c p a)))
        \<or> Http_stk_push \<in> set (fst (snd (stk_push now net c p a))) \<longrightarrow>
        validate_phone_number p \<noteq> None \<and> 100 \<le> a)
   \<and> (booking_type b \<noteq> FreeTrial \<and> 0 < price b
        \<and> stk_push now net c p (price b) = (Some (StkSuccess cid mid ph), ev, c1) \<longrightarrow>
        validate_phone_number p = Some ph
        \<and> process_class_payment now net c b p d
            = (Inr (PaySuccess cid),
               b\<lparr>payment_attempts := payment_attempts b + 1,
                 last_payment_attempt := Some now,
                 transaction_id := cid, phone_number := Some ph,
                 amount_paid := price b, payment_status := PaymentPending,
                 status := Pending, expires_at := Some (now + 300)\<rparr>,
               create_log \<lparr>log_booking = booking_id b, log_transaction_id = cid,
                           action = ''stk_push_sent'', status_code = Some ''SUCCESS'',
                           created_at = now\<rparr>
                 (save (b\<lparr>payment_attempts := payment_attempts b + 1,
                          last_payment_attempt := Some now,
                          transaction_id := cid, phone_number := Some ph,
                          amount_paid := price b, payment_status := PaymentPending,
                          status := Pending, expires_at := Some (now + 300)\<rparr>)
                    (create_log \<lparr>log_booking = booking_id b, log_transaction_id = None,
                                  action = ''payment_initiated'',
                                  status_code = Some ''INITIATED'', created_at = now\<rparr>
                       (save (b\<lparr>payment_attempts := payment_attempts b + 1,
                                last_payment_attempt := Some now\<rparr>) d))),
               ev, c1))
   \<and> (booking_type b \<noteq> FreeTrial \<and> 0 < price b
        \<and> stk_push now net c p (price b) = (Some (StkSuccess cid mid ph), ev, c1)
        \<and> distinct (map booking_id (bookings d))
        \<and> get_one (\<lambda>x. booking_id x = booking_id b) d = Inr b0 \<longrightarrow>
        get_one (\<lambda>x. booking_id x = booking_id b)
            (fst (snd (snd (process_class_payment now net c b p d))))
          = Inr (b\<lparr>payment_attempts := payment_attempts b + 1,
                   last_payment_attempt := Some now,
                   transaction_id := cid, phone_number := Some ph,
                   amount_paid := price b, payment_status := PaymentPending,
                   status := Pending, expires_at := Some (now + 300)\<rparr>))"
proof (intro conjI impI)
  show "validate_phone_number ''0712345678'' = Some ''254712345678''"
    by (simp add: validate_phone_number_def isdigit_def startswith_def)
next
  show "(validate_phone_number p = None)
       = (\<not> (length (filter isdigit p) = 12 \<and> startswith (filter isdigit p) ''254'')
          \<and> \<not> (length (filter isdigit p) = 10 \<and> startswith (filter isdigit p) ''0'')
          \<and> length (filter isdigit p) \<noteq> 9)"
    by (rule validate_phone_number_None)
next
  assume "validate_phone_number p = Some q"
  then show "q = ''254'' @ drop (length (filter isdigit p) - 9) (filter isdigit p)"
    and "length q = 12"
    using validate_phone_number_Some by blast+
next
  assume "validate_phone_number p = None"
  then show "stk_push now net c p a
      = (Some (StkFailure (JStr ''INVALID_PHONE'')), [Call_stk_push], c)"
    by (simp add: stk_push_def)
next
  assume "validate_phone_number p \<noteq> None \<and> a < 100"
  then show "stk_push now net c p a
      = (Some (StkFailure (JStr ''INVALID_AMOUNT'')), [Call_stk_push], c)"
    by (auto simp: stk_push_def int_of_amount_lt_1)
next
  assume "Http_token \<in> set (fst (snd (stk_push now net c p a)))
        \<or> Http_stk_push \<in> set (fst (snd (stk_push now net c p a)))"
  then show "validate_phone_number p \<noteq> None" and "100 \<le> a"
    using stk_push_http_needs_valid by blast+
next
  assume h: "booking_type b \<noteq> FreeTrial \<and> 0 < price b
        \<and> stk_push now net c p (price b) = (Some (StkSuccess cid mid ph), ev, c1)"
  then show "validate_phone_number p = Some ph"
    using stk_push_success_phone [of now net c p "price b" cid mid ph] by simp
  from h show "process_class_payment now net c b p d
            = (Inr (PaySuccess cid),
               b\<lparr>payment_attempts := payment_attempts b + 1,
                 last_payment_attempt := Some now,
                 transaction_id := cid, phone_number := Some ph,
                 amount_paid := price b, payment_status := PaymentPending,
                 status := Pending, expires_at := Some (now + 300)\<rparr>,
               create_log \<lparr>log_booking = booking_id b, log_transaction_id = cid,
                           action = ''stk_push_sent'', status_code = Some ''SUCCESS'',
                           created_at = now\<rparr>
                 (save (b\<lparr>payment_attempts := payment_attempts b + 1,
                          last_payment_attempt := Some now,
                          transaction_id := cid, phone_number := Some ph,
                          amount_paid := price b, payment_status := PaymentPending,
                          status := Pending, expires_at := Some (now + 300)\<rparr>)
                    (create_log \<lparr>log_booking = booking_id b, log_transaction_id = None,
                                  action = ''payment_initiated'',
                                  status_code = Some ''INITIATED'', created_at = now\<rparr>
                       (save (b\<lparr>payment_attempts := payment_attempts b + 1,
                                last_payment_attempt := Some now\<rparr>) d))),
               ev, c1)"
    by (simp add: process_class_payment_def Let_def)
next
  assume h: "booking_type b \<noteq> FreeTrial \<and> 0 < price b
        \<and> stk_push now net c p (price b) = (Some (StkSuccess cid mid ph), ev, c1)
        \<and> distinct (map booking_id (bookings d))
        \<and> get_one (\<lambda>x. booking_id x = booking_id b) d = Inr b0"
  let ?b1 = "b\<lparr>payment_attempts := payment_attempts b + 1,
                last_payment_attempt := Some now\<rparr>"
  let ?b2 = "b\<lparr>payment_attempts := payment_attempts b + 1,
                   last_payment_attempt := Some now,
                   transaction_id := cid, phone_number := Some ph,
                   amount_paid := price b, payment_status := PaymentPending,
                   status := Pending, expires_at := Some (now + 300)\<rparr>"
  from h have dist: "distinct (map booking_id (bookings d))"
    and got: "get_one (\<lambda>x. booking_id x = booking_id b) d = Inr b0" by simp_all
  from got have id0: "booking_id b0 = booking_id b"
    using get_one_mem by fastforce
  have g1: "get_one (\<lambda>x. booking_id x = booking_id b) (save ?b1 d) = Inr ?b1"
    using id0 by (intro get_one_save [OF dist got]) simp_all
  have d1: "distinct (map booking_id (bookings (save ?b1 d)))"
    using dist by (rule distinct_save)
  have g2: "get_one (\<lambda>x. booking_id x = booking_id b) (save ?b2 (save ?b1 d)) = Inr ?b2"
    by (intro get_one_save [OF d1 g1]) simp_all
  from h g2 show "get_one (\<lambda>x. booking_id x = booking_id b)
            (fst (snd (snd (process_class_payment now net c b p d)))) = Inr ?b2"
    by (simp add: process_class_payment_def Let_def save_create_log)
qed


theorem local_validation_precedes_network_witness:
  "validate_phone_number ''0712345678'' = Some ''254712345678''
   \<and> ''254712345678''
       = ''254'' @ drop (length (filter isdigit ''0712345678'') - 9) (filter isdigit ''0712345678'')
   \<and> validate_phone_number ''12345'' = None
   \<and> stk_push 1000 net_accept empty_cache ''12345'' 150000
       = (Some (StkFailure (JStr ''INVALID_PHONE'')), [Call_stk_push], empty_cache)
   \<and> validate_phone_number ''0712345678'' \<noteq> None \<and> (50::int) < 100
   \<and> stk_push 1000 net_accept empty_cache ''0712345678'' 50
       = (Some (StkFailure (JStr ''INVALID_AMOUNT'')), [Call_stk_push], empty_cache)
   \<and> Http_token \<in> set (fst (snd (stk_push 1000 net_accept empty_cache ''0712345678'' 150000)))
   \<and> (100::int) \<le> 150000
   \<and> booking_type monthly_booking \<noteq> FreeTrial \<and> 0 < price monthly_booking
   \<and> stk_push 1000 net_accept empty_cache ''0712345678'' (price monthly_booking)
       = (Some (StkSuccess (Some ''ws_CO_1'') (Some ''m1'') ''254712345678''),
          [Call_stk_push, Http_token, Http_stk_push],
          \<lparr>mpesa_access_token = Some (''token'', 4000),
           mpesa_request = [(''mpesa_request_ws_CO_1'', 1600)]\<rparr>)
   \<and> distinct (map booking_id (bookings monthly_db))
   \<and> get_one (\<lambda>x. booking_id x = booking_id monthly_booking) monthly_db = Inr monthly_booking
   \<and> fst (process_class_payment 1000 net_accept empty_cache monthly_booking ''0712345678''
            monthly_db) = Inr (PaySuccess (Some ''ws_CO_1''))
   \<and> get_one (\<lambda>x. booking_id x = booking_id monthly_booking)
         (fst (snd (snd (process_class_payment 1000 net_accept empty_cache monthly_booking
                           ''0712345678'' monthly_db))))
       = Inr pending_booking"
proof -
  have h1: "validate_phone_number ''12345'' = None"
    by (simp add: validate_phone_number_def isdigit_def startswith_def)
  have v: "validate_phone_number ''0712345678'' = Some ''254712345678''"
    by (simp add: validate_phone_number_def isdigit_def startswith_def)
  have h2: "validate_phone_number ''0712345678'' \<noteq> None \<and> (50::int) < 100"
    using v by simp
  have pr: "price monthly_booking = 150000" "booking_type monthly_booking \<noteq> FreeTrial"
    by (simp_all add: monthly_booking_def new_booking_def)
  have push: "stk_push 1000 net_accept empty_cache ''0712345678'' (price monthly_booking)
       = (Some (StkSuccess (Some ''ws_CO_1'') (Some ''m1'') ''254712345678''),
          [Call_stk_push, Http_token, Http_stk_push],
          \<lparr>mpesa_access_token = Some (''token'', 4000),
           mpesa_request = [(''mpesa_request_ws_CO_1'', 1600)]\<rparr>)"
    using scenario_a_push by (simp add: pr)
  have h3: "Http_token \<in> set (fst (snd (stk_push 1000 net_accept empty_cache ''0712345678'' 150000)))
      \<or> Http_stk_push \<in> set (fst (snd (stk_push 1000 net_accept empty_cache ''0712345678'' 150000)))"
    by (simp add: scenario_a_push)
  have h4: "distinct (map booking_id (bookings monthly_db))"
    and h5: "get_one (\<lambda>x. booking_id x = booking_id monthly_booking) monthly_db
               = Inr monthly_booking"
    by (simp_all add: monthly_db_def get_one_def)
  have hyp7: "booking_type monthly_booking \<noteq> FreeTrial \<and> 0 < price monthly_booking
        \<and> stk_push 1000 net_accept empty_cache ''0712345678'' (price monthly_booking)
            = (Some (StkSuccess (Some ''ws_CO_1'') (Some ''m1'') ''254712345678''),
               [Call_stk_push, Http_token, Http_stk_push],
               \<lparr>mpesa_access_token = Some (''token'', 4000),
                mpesa_request = [(''mpesa_request_ws_CO_1'', 1600)]\<rparr>)"
    using pr push by simp
  note A = local_validation_precedes_network [where p = "''0712345678''"
      and q = "''254712345678''" and now = 1000 and net = net_accept and c = empty_cache
      and a = 150000 and b = monthly_booking and cid = "Some ''ws_CO_1''"
      and mid = "Some ''m1''" and ph = "''254712345678''"
      and ev = "[Call_stk_push, Http_token, Http_stk_push]"
      and ?c1.0 = "\<lparr>mpesa_access_token = Some (''token'', 4000),
                   mpesa_request = [(''mpesa_request_ws_CO_1'', 1600)]\<rparr>"
      and d = monthly_db and ?b0.0 = monthly_booking]
  note B = local_validation_precedes_network [where p = "''12345''" and now = 1000
      and net = net_accept and c = empty_cache and a = 150000]
  note C = local_validation_precedes_network [where p = "''0712345678''" and now = 1000
      and net = net_accept and c = empty_cache and a = 50]
  have c3: "''254712345678''
       = ''254'' @ drop (length (filter isdigit ''0712345678'') - 9) (filter isdigit ''0712345678'')"
    using A [THEN conjunct2, THEN conjunct2, THEN conjunct1, THEN mp, OF v] by blast
  have c4: "stk_push 1000 net_accept empty_cache ''12345'' 150000
       = (Some (StkFailure (JStr ''INVALID_PHONE'')), [Call_stk_push], empty_cache)"
    by (rule B [THEN conjunct2, THEN conjunct2, THEN conjunct2, THEN conjunct1, THEN mp, OF h1])
  have c5: "stk_push 1000 net_accept empty_cache ''0712345678'' 50
       = (Some (StkFailure (JStr ''INVALID_AMOUNT'')), [Call_stk_push], empty_cache)"
    by (rule C [THEN conjunct2, THEN conjunct2, THEN conjunct2, THEN conjunct2,
                THEN conjunct1, THEN mp, OF h2])
  have c6: "(100::int) \<le> 150000"
    using A [THEN conjunct2, THEN conjunct2, THEN conjunct2, THEN conjunct2, THEN conjunct2,
             THEN conjunct1, THEN mp, OF h3] by blast
  have c7: "fst (process_class_payment 1000 net_accept empty_cache monthly_booking
                   ''0712345678'' monthly_db) = Inr (PaySuccess (Some ''ws_CO_1''))"
    using A [THEN conjunct2, THEN conjunct2, THEN conjunct2, THEN conjunct2, THEN conjunct2,
             THEN conjunct2, THEN conjunct1, THEN mp, OF hyp7] by simp
  have eqb: "monthly_booking\<lparr>payment_attempts := payment_attempts monthly_booking + 1,
                   last_payment_attempt := Some 1000,
                   transaction_id := Some ''ws_CO_1'', phone_number := Some ''254712345678'',
                   amount_paid := price monthly_booking, payment_status := PaymentPending,
                   status := Pending, expires_at := Some (1000 + 300)\<rparr> = pending_booking"
    by (simp add: pending_booking_def monthly_booking_def new_booking_def)
  have c8: "get_one (\<lambda>x. booking_id x = booking_id monthly_booking)
         (fst (snd (snd (process_class_payment 1000 net_accept empty_cache monthly_booking
                           ''0712345678'' monthly_db))))
       = Inr pending_booking"
    using A [THEN conjunct2, THEN conjunct2, THEN conjunct2, THEN conjunct2, THEN conjunct2,
             THEN conjunct2, THEN conjunct2, THEN mp,
             OF conjI [OF hyp7 [THEN conjunct1]
                  conjI [OF hyp7 [THEN conjunct2, THEN conjunct1]
                    conjI [OF hyp7 [THEN conjunct2, THEN conjunct2] conjI [OF h4 h5]]]]]
    unfolding eqb .
  have h3': "Http_token \<in> set (fst (snd (stk_push 1000 net_accept empty_cache ''0712345678'' 150000)))"
    by (simp add: scenario_a_push)
  show ?thesis
    using v c3 h1 c4 h2 c5 h3' c6 hyp7 h4 h5 c7 c8 by blast
qed




text \<open>
  C9 (audit coverage of transitions). The claim is that every transition, the expiry on
  the poll path in particular, writes exactly one audit entry. \<open>mark_expired\<close> records
  the expiry in the booking's notes and creates no \<open>PaymentLog\<close> row, and neither of
  its two callers does: a poll at 1400 moves the pending booking (deadline 1300) from
  Pending to Expired and the audit trail stays empty. The webhook writes two rows for one
  confirmation, \<open>callback_received\<close> and \<open>payment_confirmed\<close>.
\<close>

theorem poll_expiry_writes_no_audit_entry:
  "map status (bookings pending_db) = [Pending]
   \<and> map status
        (bookings (fst (snd (check_payment_status 1400 net_timeout warm_cache 7 42 pending_db))))
      = [Expired]
   \<and> payment_logs (fst (snd (check_payment_status 1400 net_timeout warm_cache 7 42 pending_db)))
      = []
   \<and> map action (payment_logs (process_callback 1100 success_callback pending_db))
      = [''callback_received'', ''payment_confirmed'']"
  by code_simp

text \<open>
  C9, amended: the audit entries each transition writes, each under its own conditions.
  \<^item> Expiry: a poll of a Pending booking past its deadline answers "expired", stores
    the expired row and writes no entry; the payment-pending page expires a booking
    past its deadline whose payment is Pending, and never writes an entry.
  \<^item> Poll with a result code: one entry when it confirms
    (\<open>payment_confirmed_via_query\<close>) or fails (\<open>payment_failed_via_query\<close>), none when
    the code leaves the booking pending.
  \<^item> Webhook delivery naming exactly one booking: two entries, \<open>callback_received\<close>
    followed by \<open>payment_confirmed\<close> or \<open>payment_failed\<close>.
  \<^item> Cancellation by the user of a Confirmed or Pending booking: one entry,
    \<open>booking_cancelled\<close>.
  \<^item> Free-trial confirmation: one entry, \<open>free_trial_confirmed\<close>.
  \<^item> Payment initiation for a paid booking of positive price: the push always returns a
    result, and two entries are written, \<open>payment_initiated\<close> followed by
    \<open>stk_push_sent\<close> or \<open>stk_push_failed\<close>.
  \<^item> A paid booking whose price is not positive: \<open>process_class_payment\<close> returns
    INVALID_AMOUNT and writes nothing, and the view stores the booking as Cancelled with
    payment status Failed without an entry for that failure.
  \<^item> Creation through the view: \<open>booking_created\<close> first, then the entries above, so
    two entries for a free trial, one for a paid booking without a positive price, three
    otherwise.
\<close>

theorem audit_entries_per_transition:
  "(get_one (\<lambda>x. booking_id x = bid \<and> user x = uid) d = Inr b
    \<and> is_payment_expired now b \<and> status b = Pending \<and> payment_status b \<noteq> Failed \<longrightarrow>
      check_payment_status now net c uid bid d
        = (PollExpired, snd (mark_expired b d), [], c)
      \<and> payment_logs (snd (mark_expired b d)) = payment_logs d)
   \<and> payment_logs (payment_pending_view now uid bid d) = payment_logs d
   \<and> (get_one (\<lambda>x. booking_id x = bid \<and> user x = uid) d = Inr b
       \<and> is_payment_expired now b \<and> payment_status b = PaymentPending \<longrightarrow>
        payment_pending_view now uid bid d = snd (mark_expired b d))
   \<and> (get_one (\<lambda>x. booking_id x = bid \<and> user x = uid) d = Inr b
       \<and> status b = Pending \<and> payment_status b = PaymentPending
       \<and> transaction_id b = Some tid \<and> tid \<noteq> [] \<and> \<not> is_payment_expired now b
       \<and> fst (query_transaction now net c tid) = Some r \<and> ResultCode r = Some v \<longrightarrow>
        map action (payment_logs (fst (snd (check_payment_status now net c uid bid d))))
          = map action (payment_logs d)
              @ (if py_str v = ''0'' then [''payment_confirmed_via_query'']
                 else if py_str v \<noteq> ''1032'' \<and> py_str v \<noteq> ''1''
                      then [''payment_failed_via_query''] else []))
   \<and> (cb_CheckoutRequestID data = Some cid \<and> cid \<noteq> []
       \<and> get_one (\<lambda>x. transaction_id x = Some cid) d = Inr bw \<longrightarrow>
        map action (payment_logs (process_callback now data d))
          = map action (payment_logs d)
              @ [''callback_received'',
                 if eq_zero (cb_ResultCode data) then ''payment_confirmed''
                 else ''payment_failed''])
   \<and> (get_one (\<lambda>x. booking_id x = bid \<and> user x = uid) d = Inr b
       \<and> (status b = Confirmed \<or> status b = Pending) \<longrightarrow>
        map action (payment_logs (cancel_booking_view now uid bid d))
          = map action (payment_logs d) @ [''booking_cancelled''])
   \<and> (booking_type b = FreeTrial \<longrightarrow>
        map action (payment_logs (fst (snd (snd (process_class_payment now net c b p d)))))
          = map action (payment_logs d) @ [''free_trial_confirmed''])
   \<and> (booking_type b \<noteq> FreeTrial \<and> 0 < price b \<longrightarrow>
        (\<exists>res. fst (stk_push now net c p (price b)) = Some res
           \<and> map action (payment_logs (fst (snd (snd (process_class_payment now net c b p d)))))
               = map action (payment_logs d)
                   @ [''payment_initiated'',
                      case res of StkSuccess x y z \<Rightarrow> ''stk_push_sent''
                                | StkFailure x \<Rightarrow> ''stk_push_failed'']))
   \<and> (booking_type b \<noteq> FreeTrial \<and> price b \<le> 0 \<longrightarrow>
        process_class_payment now net c b p d
          = (Inr (PayFailure (JStr ''INVALID_AMOUNT'')), b, d, [], c))
   \<and> map action (payment_logs
         (fst (booking_create now net c i u FreeTrial ref phone class_price class_title d)))
       = map action (payment_logs d) @ [''booking_created'', ''free_trial_confirmed'']
   \<and> (bt \<noteq> FreeTrial \<and> class_price \<le> 0 \<longrightarrow>
        fst (booking_create now net c i u bt ref phone class_price class_title d)
          = save ((new_booking i u bt ref phone class_price class_title)
                    \<lparr>status := Cancelled, payment_status := Failed,
                     cancelled_at := Some now,
                     booking_notes := ''Payment initiation failed: INVALID_AMOUNT''\<rparr>)
              (create_log \<lparr>log_booking = i, log_transaction_id = None,
                            action = ''booking_created'',
                            status_code = Some ''CREATED'', created_at = now\<rparr>
                 (save (new_booking i u bt ref phone class_price class_title) d))
        \<and> map action (payment_logs
              (fst (booking_create now net c i u bt ref phone class_price class_title d)))
            = map action (payment_logs d) @ [''booking_created''])
   \<and> (bt \<noteq> FreeTrial \<and> 0 < class_price \<longrightarrow>
        (\<exists>res. fst (stk_push now net c phone class_price) = Some res
           \<and> map action (payment_logs
                 (fst (booking_create now net c i u bt ref phone class_price class_title d)))
               = map action (payment_logs d)
                   @ [''booking_created'', ''payment_initiated'',
                      case res of StkSuccess x y z \<Rightarrow> ''stk_push_sent''
                                | StkFailure x \<Rightarrow> ''stk_push_failed'']))"
proof -
  have A: "get_one (\<lambda>x. booking_id x = bid \<and> user x = uid) d = Inr b
    \<and> is_payment_expired now b \<and> status b = Pending \<and> payment_status b \<noteq> Failed \<longrightarrow>
      check_payment_status now net c uid bid d
        = (PollExpired, snd (mark_expired b d), [], c)
      \<and> payment_logs (snd (mark_expired b d)) = payment_logs d"
    by (simp add: check_payment_status_def mark_expired_def Let_def)
  have B1: "payment_logs (payment_pending_view now uid bid d) = payment_logs d"
    by (simp add: payment_pending_view_def mark_expired_def Let_def split: sum.splits)
  have B2: "get_one (\<lambda>x. booking_id x = bid \<and> user x = uid) d = Inr b
       \<and> is_payment_expired now b \<and> payment_status b = PaymentPending \<longrightarrow>
        payment_pending_view now uid bid d = snd (mark_expired b d)"
    by (simp add: payment_pending_view_def)
  have C: "get_one (\<lambda>x. booking_id x = bid \<and> user x = uid) d = Inr b
       \<and> status b = Pending \<and> payment_status b = PaymentPending
       \<and> transaction_id b = Some tid \<and> tid \<noteq> [] \<and> \<not> is_payment_expired now b
       \<and> fst (query_transaction now net c tid) = Some r \<and> ResultCode r = Some v \<longrightarrow>
        map action (payment_logs (fst (snd (check_payment_status now net c uid bid d))))
          = map action (payment_logs d)
              @ (if py_str v = ''0'' then [''payment_confirmed_via_query'']
                 else if py_str v \<noteq> ''1032'' \<and> py_str v \<noteq> ''1''
                      then [''payment_failed_via_query''] else [])"
  proof
    assume h: "get_one (\<lambda>x. booking_id x = bid \<and> user x = uid) d = Inr b
       \<and> status b = Pending \<and> payment_status b = PaymentPending
       \<and> transaction_id b = Some tid \<and> tid \<noteq> [] \<and> \<not> is_payment_expired now b
       \<and> fst (query_transaction now net c tid) = Some r \<and> ResultCode r = Some v"
    then obtain ev c1 where q: "query_transaction now net c tid = (Some r, ev, c1)"
      by (cases "query_transaction now net c tid") auto
    from h show "map action (payment_logs (fst (snd (check_payment_status now net c uid bid d))))
          = map action (payment_logs d)
              @ (if py_str v = ''0'' then [''payment_confirmed_via_query'']
                 else if py_str v \<noteq> ''1032'' \<and> py_str v \<noteq> ''1''
                      then [''payment_failed_via_query''] else [])"
      by (simp add: check_payment_status_def q Let_def confirm_payment_def)
  qed
  have D: "cb_CheckoutRequestID data = Some cid \<and> cid \<noteq> []
       \<and> get_one (\<lambda>x. transaction_id x = Some cid) d = Inr bw \<longrightarrow>
        map action (payment_logs (process_callback now data d))
          = map action (payment_logs d)
              @ [''callback_received'',
                 if eq_zero (cb_ResultCode data) then ''payment_confirmed''
                 else ''payment_failed'']"
    by (simp add: process_callback_def Let_def confirm_payment_def)
  have E: "get_one (\<lambda>x. booking_id x = bid \<and> user x = uid) d = Inr b
       \<and> (status b = Confirmed \<or> status b = Pending) \<longrightarrow>
        map action (payment_logs (cancel_booking_view now uid bid d))
          = map action (payment_logs d) @ [''booking_cancelled'']"
    by (auto simp: cancel_booking_view_def cancel_booking_def Let_def)
  have F: "booking_type b = FreeTrial \<longrightarrow>
        map action (payment_logs (fst (snd (snd (process_class_payment now net c b p d)))))
          = map action (payment_logs d) @ [''free_trial_confirmed'']"
    by (simp add: process_class_payment_def Let_def)
  have G: "booking_type b \<noteq> FreeTrial \<and> 0 < price b \<longrightarrow>
        (\<exists>res. fst (stk_push now net c p (price b)) = Some res
           \<and> map action (payment_logs (fst (snd (snd (process_class_payment now net c b p d)))))
               = map action (payment_logs d)
                   @ [''payment_initiated'',
                      case res of StkSuccess x y z \<Rightarrow> ''stk_push_sent''
                                | StkFailure x \<Rightarrow> ''stk_push_failed''])"
    using initiation_logs by blast
  have H: "booking_type b \<noteq> FreeTrial \<and> price b \<le> 0 \<longrightarrow>
        process_class_payment now net c b p d
          = (Inr (PayFailure (JStr ''INVALID_AMOUNT'')), b, d, [], c)"
    by (simp add: process_class_payment_def Let_def)
  let ?b0 = "new_booking i u bt ref phone class_price class_title"
  have f: "booking_type ?b0 = bt" "price ?b0 = class_price" "booking_id ?b0 = i"
    by (simp_all add: new_booking_def)
  have I1: "map action (payment_logs
         (fst (booking_create now net c i u FreeTrial ref phone class_price class_title d)))
       = map action (payment_logs d) @ [''booking_created'', ''free_trial_confirmed'']"
    by (simp add: booking_create_def process_class_payment_def Let_def new_booking_def)
  have I2: "bt \<noteq> FreeTrial \<and> class_price \<le> 0 \<longrightarrow>
        fst (booking_create now net c i u bt ref phone class_price class_title d)
          = save (?b0\<lparr>status := Cancelled, payment_status := Failed,
                     cancelled_at := Some now,
                     booking_notes := ''Payment initiation failed: INVALID_AMOUNT''\<rparr>)
              (create_log \<lparr>log_booking = i, log_transaction_id = None,
                            action = ''booking_created'',
                            status_code = Some ''CREATED'', created_at = now\<rparr>
                 (save ?b0 d))
        \<and> map action (payment_logs
              (fst (booking_create now net c i u bt ref phone class_price class_title d)))
            = map action (payment_logs d) @ [''booking_created'']"
    using f by (simp add: booking_create_def process_class_payment_def Let_def)
  have I3: "bt \<noteq> FreeTrial \<and> 0 < class_price \<longrightarrow>
        (\<exists>res. fst (stk_push now net c phone class_price) = Some res
           \<and> map action (payment_logs
                 (fst (booking_create now net c i u bt ref phone class_price class_title d)))
               = map action (payment_logs d)
                   @ [''booking_created'', ''payment_initiated'',
                      case res of StkSuccess x y z \<Rightarrow> ''stk_push_sent''
                                | StkFailure x \<Rightarrow> ''stk_push_failed''])"
  proof
    assume h: "bt \<noteq> FreeTrial \<and> 0 < class_price"
    obtain res where r: "fst (stk_push now net c phone class_price) = Some res"
      using stk_push_returns by blast
    then obtain ev c1 where s: "stk_push now net c phone class_price = (Some res, ev, c1)"
      by (cases "stk_push now net c phone class_price") auto
    have "map action (payment_logs
                 (fst (booking_create now net c i u bt ref phone class_price class_title d)))
               = map action (payment_logs d)
                   @ [''booking_created'', ''payment_initiated'',
                      case res of StkSuccess x y z \<Rightarrow> ''stk_push_sent''
                                | StkFailure x \<Rightarrow> ''stk_push_failed'']"
      using h f
      by (cases res)
         (simp_all add: booking_create_def process_class_payment_def Let_def s)
    with r show "\<exists>res. fst (stk_push now net c phone class_price) = Some res
           \<and> map action (payment_logs
                 (fst (booking_create now net c i u bt ref phone class_price class_title d)))
               = map action (payment_logs d)
                   @ [''booking_created'', ''payment_initiated'',
                      case res of StkSuccess x y z \<Rightarrow> ''stk_push_sent''
                                | StkFailure x \<Rightarrow> ''stk_push_failed'']"
      by blast
  qed
  from A B1 B2 C D E F G H I1 I2 I3 show ?thesis
    by (intro conjI)
qed

theorem audit_entries_per_transition_witness:
  "(get_one (\<lambda>x. booking_id x = 42 \<and> user x = 7) pending_db = Inr pending_booking
    \<and> is_payment_expired 1400 pending_booking \<and> status pending_booking = Pending
    \<and> payment_status pending_booking \<noteq> Failed)
   \<and> (check_payment_status 1400 net_timeout warm_cache 7 42 pending_db
        = (PollExpired, snd (mark_expired pending_booking pending_db), [], warm_cache)
      \<and> payment_logs (snd (mark_expired pending_booking pending_db)) = payment_logs pending_db)
   \<and> (payment_logs (payment_pending_view 1400 7 42 pending_db) = payment_logs pending_db)
   \<and> (get_one (\<lambda>x. booking_id x = 42 \<and> user x = 7) pending_db = Inr pending_booking
    \<and> is_payment_expired 1400 pending_booking \<and> payment_status pending_booking = PaymentPending)
   \<and> (payment_pending_view 1400 7 42 pending_db = snd (mark_expired pending_booking pending_db))
   \<and> (get_one (\<lambda>x. booking_id x = 42 \<and> user x = 7) pending_db = Inr pending_booking
    \<and> status pending_booking = Pending \<and> payment_status pending_booking = PaymentPending
    \<and> transaction_id pending_booking = Some ''ws_CO_1'' \<and> ''ws_CO_1'' \<noteq> []
    \<and> \<not> is_payment_expired 1100 pending_booking
    \<and> fst (query_transaction 1100 (net_query (JInt 17)) warm_cache ''ws_CO_1'') = Some \<lparr>ResultCode = Some (JInt 17), MpesaReceiptNumber = Some ''ABC123''\<rparr>
    \<and> ResultCode \<lparr>ResultCode = Some (JInt 17), MpesaReceiptNumber = Some ''ABC123''\<rparr> = Some (JInt 17))
   \<and> (map action (payment_logs (fst (snd (check_payment_status 1100 (net_query (JInt 17)) warm_cache 7 42 pending_db))))
       = [''payment_failed_via_query''])
   \<and> (cb_CheckoutRequestID success_callback = Some ''ws_CO_1'' \<and> ''ws_CO_1'' \<noteq> []
    \<and> get_one (\<lambda>x. transaction_id x = Some ''ws_CO_1'') pending_db = Inr pending_booking)
   \<and> (map action (payment_logs (process_callback 1400 success_callback pending_db))
       = [''callback_received'', ''payment_confirmed''])
   \<and> (get_one (\<lambda>x. booking_id x = 42 \<and> user x = 7) pending_db = Inr pending_booking
    \<and> (status pending_booking = Confirmed \<or> status pending_booking = Pending))
   \<and> (map action (payment_logs (cancel_booking_view 1400 7 42 pending_db))
          = map action (payment_logs pending_db) @ [''booking_cancelled''])
   \<and> (booking_type trial_booking = FreeTrial)
   \<and> (map action (payment_logs (fst (snd (snd (process_class_payment 1000 net_timeout empty_cache trial_booking ''254712345678'' trial_db)))))
          = map action (payment_logs trial_db) @ [''free_trial_confirmed''])
   \<and> (booking_type monthly_booking \<noteq> FreeTrial \<and> 0 < price monthly_booking)
   \<and> (\<exists>res. fst (stk_push 1000 net_timeout empty_cache ''0712345678'' (price monthly_booking)) = Some res
           \<and> map action (payment_logs (fst (snd (snd (process_class_payment 1000 net_timeout empty_cache monthly_booking ''0712345678'' monthly_db)))))
               = map action (payment_logs monthly_db)
                   @ [''payment_initiated'',
                      case res of StkSuccess x y z \<Rightarrow> ''stk_push_sent''
                                | StkFailure x \<Rightarrow> ''stk_push_failed''])
   \<and> (booking_type unpriced_booking \<noteq> FreeTrial \<and> price unpriced_booking \<le> 0)
   \<and> (process_class_payment 1000 net_timeout empty_cache unpriced_booking ''254712345678'' empty_db
          = (Inr (PayFailure (JStr ''INVALID_AMOUNT'')), unpriced_booking, empty_db, [], empty_cache))
   \<and> (map action (payment_logs
         (fst (booking_create 1000 net_timeout empty_cache 5 7 FreeTrial ''BK1'' ''254712345678'' 150000 ''Karate'' empty_db)))
       = map action (payment_logs empty_db) @ [''booking_created'', ''free_trial_confirmed''])
   \<and> (Monthly \<noteq> FreeTrial \<and> (0::int) \<le> 0)
   \<and> (fst (booking_create 1000 net_timeout empty_cache 5 7 Monthly ''BK1'' ''254712345678'' 0 ''Karate'' empty_db)
          = save ((new_booking 5 7 Monthly ''BK1'' ''254712345678'' 0 ''Karate'')
                    \<lparr>status := Cancelled, payment_status := Failed,
                     cancelled_at := Some 1000,
                     booking_notes := ''Payment initiation failed: INVALID_AMOUNT''\<rparr>)
              (create_log \<lparr>log_booking = 5, log_transaction_id = None,
                            action = ''booking_created'',
                            status_code = Some ''CREATED'', created_at = 1000\<rparr>
                 (save (new_booking 5 7 Monthly ''BK1'' ''254712345678'' 0 ''Karate'') empty_db))
        \<and> map action (payment_logs
              (fst (booking_create 1000 net_timeout empty_cache 5 7 Monthly ''BK1'' ''254712345678'' 0 ''Karate'' empty_db)))
            = map action (payment_logs empty_db) @ [''booking_created''])
   \<and> (Monthly \<noteq> FreeTrial \<and> (0::int) < 150000)
   \<and> (\<exists>res. fst (stk_push 1000 net_accept empty_cache ''254712345678'' 150000) = Some res
           \<and> map action (payment_logs
                 (fst (booking_create 1000 net_accept empty_cache 5 7 Monthly ''BK1'' ''254712345678'' 150000 ''Karate'' empty_db)))
               = map action (payment_logs empty_db)
                   @ [''booking_created'', ''payment_initiated'',
                      case res of StkSuccess x y z \<Rightarrow> ''stk_push_sent''
                                | StkFailure x \<Rightarrow> ''stk_push_failed''])"
proof -
  have e1400: "is_payment_expired 1400 pending_booking"
    by (rule pending_expired_1400)
  have hA: "get_one (\<lambda>x. booking_id x = 42 \<and> user x = 7) pending_db = Inr pending_booking
    \<and> is_payment_expired 1400 pending_booking \<and> status pending_booking = Pending
    \<and> payment_status pending_booking \<noteq> Failed"
    using get_pending_by_id e1400 by (simp add: pending_booking_fields)
  have cA: "check_payment_status 1400 net_timeout warm_cache 7 42 pending_db
        = (PollExpired, snd (mark_expired pending_booking pending_db), [], warm_cache)
      \<and> payment_logs (snd (mark_expired pending_booking pending_db)) = payment_logs pending_db"
    by (rule audit_entries_per_transition [where d = pending_db and b = pending_booking and bid = 42 and uid = 7 and now = 1400 and net = net_timeout
          and c = warm_cache, THEN conjunct1, THEN mp, OF hA])
  have cB1: "payment_logs (payment_pending_view 1400 7 42 pending_db) = payment_logs pending_db"
    by (rule audit_entries_per_transition [where d = pending_db and b = pending_booking and bid = 42 and uid = 7 and now = 1400, THEN conjunct2, THEN conjunct1])
  have hB2: "get_one (\<lambda>x. booking_id x = 42 \<and> user x = 7) pending_db = Inr pending_booking
    \<and> is_payment_expired 1400 pending_booking \<and> payment_status pending_booking = PaymentPending"
    using get_pending_by_id e1400 by (simp add: pending_booking_fields)
  have cB2: "payment_pending_view 1400 7 42 pending_db = snd (mark_expired pending_booking pending_db)"
    by (rule audit_entries_per_transition [where d = pending_db and b = pending_booking and bid = 42 and uid = 7 and now = 1400, THEN conjunct2, THEN conjunct2, THEN conjunct1, THEN mp, OF hB2])
  have hC: "get_one (\<lambda>x. booking_id x = 42 \<and> user x = 7) pending_db = Inr pending_booking
    \<and> status pending_booking = Pending \<and> payment_status pending_booking = PaymentPending
    \<and> transaction_id pending_booking = Some ''ws_CO_1'' \<and> ''ws_CO_1'' \<noteq> []
    \<and> \<not> is_payment_expired 1100 pending_booking
    \<and> fst (query_transaction 1100 (net_query (JInt 17)) warm_cache ''ws_CO_1'') = Some \<lparr>ResultCode = Some (JInt 17), MpesaReceiptNumber = Some ''ABC123''\<rparr>
    \<and> ResultCode \<lparr>ResultCode = Some (JInt 17), MpesaReceiptNumber = Some ''ABC123''\<rparr> = Some (JInt 17)"
    using get_pending_by_id pending_not_expired_1100
    by (simp add: pending_booking_fields query_warm_answer)
  have cC_raw: "map action (payment_logs (fst (snd (check_payment_status 1100 (net_query (JInt 17)) warm_cache 7 42 pending_db))))
          = map action (payment_logs pending_db)
              @ (if py_str (JInt 17) = ''0'' then [''payment_confirmed_via_query'']
                 else if py_str (JInt 17) \<noteq> ''1032'' \<and> py_str (JInt 17) \<noteq> ''1''
                      then [''payment_failed_via_query''] else [])"
    by (rule audit_entries_per_transition [where d = pending_db and b = pending_booking and bid = 42 and uid = 7 and now = 1100 and net = "net_query (JInt 17)"
          and c = warm_cache and tid = "''ws_CO_1''" and v = "JInt 17"
          and r = "\<lparr>ResultCode = Some (JInt 17), MpesaReceiptNumber = Some ''ABC123''\<rparr>",
          THEN conjunct2, THEN conjunct2, THEN conjunct2, THEN conjunct1, THEN mp, OF hC])
  have logs0: "payment_logs pending_db = []" "payment_logs empty_db = []"
    by (simp_all add: pending_db_def empty_db_def)
  have cC: "map action (payment_logs (fst (snd (check_payment_status 1100 (net_query (JInt 17)) warm_cache 7 42 pending_db))))
       = [''payment_failed_via_query'']"
    using cC_raw by (simp add: logs0 str_int_examples)
  have hD: "cb_CheckoutRequestID success_callback = Some ''ws_CO_1'' \<and> ''ws_CO_1'' \<noteq> []
    \<and> get_one (\<lambda>x. transaction_id x = Some ''ws_CO_1'') pending_db = Inr pending_booking"
    using get_pending_by_tid by (simp add: success_callback_def)
  have cD_raw: "map action (payment_logs (process_callback 1400 success_callback pending_db))
          = map action (payment_logs pending_db)
              @ [''callback_received'',
                 if eq_zero (cb_ResultCode success_callback) then ''payment_confirmed''
                 else ''payment_failed'']"
    by (rule audit_entries_per_transition [where d = pending_db and bw = pending_booking and cid = "''ws_CO_1''"
          and data = success_callback and now = 1400, THEN conjunct2, THEN conjunct2, THEN conjunct2, THEN conjunct2, THEN conjunct1, THEN mp, OF hD])
  have cD: "map action (payment_logs (process_callback 1400 success_callback pending_db))
       = [''callback_received'', ''payment_confirmed'']"
    using cD_raw by (simp add: logs0 success_callback_def)
  have hE: "get_one (\<lambda>x. booking_id x = 42 \<and> user x = 7) pending_db = Inr pending_booking
    \<and> (status pending_booking = Confirmed \<or> status pending_booking = Pending)"
    using get_pending_by_id by (simp add: pending_booking_fields)
  have cE: "map action (payment_logs (cancel_booking_view 1400 7 42 pending_db))
          = map action (payment_logs pending_db) @ [''booking_cancelled'']"
    by (rule audit_entries_per_transition [where d = pending_db and b = pending_booking and bid = 42 and uid = 7 and now = 1400, THEN conjunct2, THEN conjunct2, THEN conjunct2, THEN conjunct2, THEN conjunct2, THEN conjunct1, THEN mp, OF hE])
  have hF: "booking_type trial_booking = FreeTrial"
    by (simp add: trial_booking_def new_booking_def)
  have cF: "map action (payment_logs (fst (snd (snd (process_class_payment 1000 net_timeout empty_cache trial_booking ''254712345678'' trial_db)))))
          = map action (payment_logs trial_db) @ [''free_trial_confirmed'']"
    by (rule audit_entries_per_transition [where b = trial_booking and now = 1000 and net = net_timeout
          and c = empty_cache and p = "''254712345678''" and d = trial_db,
          THEN conjunct2, THEN conjunct2, THEN conjunct2, THEN conjunct2, THEN conjunct2, THEN conjunct2, THEN conjunct1, THEN mp, OF hF])
  have hG: "booking_type monthly_booking \<noteq> FreeTrial \<and> 0 < price monthly_booking"
    by (simp add: monthly_booking_def new_booking_def)
  have cG: "\<exists>res. fst (stk_push 1000 net_timeout empty_cache ''0712345678'' (price monthly_booking)) = Some res
           \<and> map action (payment_logs (fst (snd (snd (process_class_payment 1000 net_timeout empty_cache monthly_booking ''0712345678'' monthly_db)))))
               = map action (payment_logs monthly_db)
                   @ [''payment_initiated'',
                      case res of StkSuccess x y z \<Rightarrow> ''stk_push_sent''
                                | StkFailure x \<Rightarrow> ''stk_push_failed'']"
    by (rule audit_entries_per_transition [where b = monthly_booking and now = 1000 and net = net_timeout
          and c = empty_cache and p = "''0712345678''" and d = monthly_db,
          THEN conjunct2, THEN conjunct2, THEN conjunct2, THEN conjunct2, THEN conjunct2, THEN conjunct2, THEN conjunct2, THEN conjunct1, THEN mp, OF hG])
  have hH: "booking_type unpriced_booking \<noteq> FreeTrial \<and> price unpriced_booking \<le> 0"
    by (simp add: unpriced_booking_def new_booking_def)
  have cH: "process_class_payment 1000 net_timeout empty_cache unpriced_booking ''254712345678'' empty_db
          = (Inr (PayFailure (JStr ''INVALID_AMOUNT'')), unpriced_booking, empty_db, [], empty_cache)"
    by (rule audit_entries_per_transition [where b = unpriced_booking and now = 1000 and net = net_timeout
          and c = empty_cache and p = "''254712345678''" and d = empty_db,
          THEN conjunct2, THEN conjunct2, THEN conjunct2, THEN conjunct2, THEN conjunct2, THEN conjunct2, THEN conjunct2, THEN conjunct2, THEN conjunct1, THEN mp, OF hH])
  have cI1: "map action (payment_logs
         (fst (booking_create 1000 net_timeout empty_cache 5 7 FreeTrial ''BK1'' ''254712345678'' 150000 ''Karate'' empty_db)))
       = map action (payment_logs empty_db) @ [''booking_created'', ''free_trial_confirmed'']"
    by (rule audit_entries_per_transition [where d = empty_db and now = 1000 and net = net_timeout
          and c = empty_cache and i = 5 and u = 7 and ref = "''BK1''"
          and phone = "''254712345678''" and class_price = 150000
          and class_title = "''Karate''", THEN conjunct2, THEN conjunct2, THEN conjunct2, THEN conjunct2, THEN conjunct2, THEN conjunct2, THEN conjunct2, THEN conjunct2, THEN conjunct2, THEN conjunct1])
  have hI2: "Monthly \<noteq> FreeTrial \<and> (0::int) \<le> 0" by simp
  have cI2: "fst (booking_create 1000 net_timeout empty_cache 5 7 Monthly ''BK1'' ''254712345678'' 0 ''Karate'' empty_db)
          = save ((new_booking 5 7 Monthly ''BK1'' ''254712345678'' 0 ''Karate'')
                    \<lparr>status := Cancelled, payment_status := Failed,
                     cancelled_at := Some 1000,
                     booking_notes := ''Payment initiation failed: INVALID_AMOUNT''\<rparr>)
              (create_log \<lparr>log_booking = 5, log_transaction_id = None,
                            action = ''booking_created'',
                            status_code = Some ''CREATED'', created_at = 1000\<rparr>
                 (save (new_booking 5 7 Monthly ''BK1'' ''254712345678'' 0 ''Karate'') empty_db))
        \<and> map action (payment_logs
              (fst (booking_create 1000 net_timeout empty_cache 5 7 Monthly ''BK1'' ''254712345678'' 0 ''Karate'' empty_db)))
            = map action (payment_logs empty_db) @ [''booking_created'']"
    by (rule audit_entries_per_transition [where d = empty_db and now = 1000 and net = net_timeout
          and c = empty_cache and i = 5 and u = 7 and ref = "''BK1''" and bt = Monthly
          and phone = "''254712345678''" and class_price = 0
          and class_title = "''Karate''", THEN conjunct2, THEN conjunct2, THEN conjunct2, THEN conjunct2, THEN conjunct2, THEN conjunct2, THEN conjunct2, THEN conjunct2, THEN conjunct2, THEN conjunct2, THEN conjunct1, THEN mp, OF hI2])
  have hI3: "Monthly \<noteq> FreeTrial \<and> (0::int) < 150000" by simp
  have cI3: "\<exists>res. fst (stk_push 1000 net_accept empty_cache ''254712345678'' 150000) = Some res
           \<and> map action (payment_logs
                 (fst (booking_create 1000 net_accept empty_cache 5 7 Monthly ''BK1'' ''254712345678'' 150000 ''Karate'' empty_db)))
               = map action (payment_logs empty_db)
                   @ [''booking_created'', ''payment_initiated'',
                      case res of StkSuccess x y z \<Rightarrow> ''stk_push_sent''
                                | StkFailure x \<Rightarrow> ''stk_push_failed'']"
    by (rule audit_entries_per_transition [where d = empty_db and now = 1000 and net = net_accept
          and c = empty_cache and i = 5 and u = 7 and ref = "''BK1''" and bt = Monthly
          and phone = "''254712345678''" and class_price = 150000
          and class_title = "''Karate''", THEN conjunct2, THEN conjunct2, THEN conjunct2, THEN conjunct2, THEN conjunct2, THEN conjunct2, THEN conjunct2, THEN conjunct2, THEN conjunct2, THEN conjunct2, THEN conjunct2, THEN mp, OF hI3])
  show ?thesis
    by (intro conjI hA cA cB1 hB2 cB2 hC cC hD cD hE cE hF cF hG cG hH cH cI1 hI2 cI2 hI3 cI3)
qed

text \<open>
  C10 (result-code policy of the poll path). For a booking that is Pending with payment
  status Pending, has a transaction id and is inside its payment window, in a table
  whose primary keys are distinct: when the status query returns a result with a result
  code, the code's text \<open>'0'\<close> makes the handler answer "confirmed" and store the
  booking as Confirmed and Paid with the returned receipt number (the empty text when
  the result has none) and both timestamps set to now; the codes \<open>'1'\<close> and
  \<open>'1032'\<close> make it answer "pending" and change nothing; every other code makes it
  answer "failed" and store the booking as Cancelled with payment status Failed and
  \<open>cancelled_at\<close> set to now.
\<close>

theorem poll_result_code_policy:
  assumes got: "get_one (\<lambda>x. booking_id x = bid \<and> user x = uid) d = Inr b"
    and dist: "distinct (map booking_id (bookings d))"
    and st: "status b = Pending" and ps: "payment_status b = PaymentPending"
    and tid: "transaction_id b = Some tid" and ne: "tid \<noteq> []"
    and live: "\<not> is_payment_expired now b"
    and q: "fst (query_transaction now net c tid) = Some r"
    and rc: "ResultCode r = Some v"
  shows "case check_payment_status now net c uid bid d of
           (resp, d', ev, c') \<Rightarrow>
             (py_str v = ''0'' \<longrightarrow>
                resp = PollConfirmed (case MpesaReceiptNumber r of None \<Rightarrow> [] | Some s \<Rightarrow> s)
                \<and> get_one (\<lambda>x. booking_id x = bid \<and> user x = uid) d'
                    = Inr (b\<lparr>payment_status := Paid, status := Confirmed,
                              transaction_id := Some tid,
                              mpesa_receipt_number :=
                                Some (case MpesaReceiptNumber r of None \<Rightarrow> [] | Some s \<Rightarrow> s),
                              payment_date := Some now, confirmed_at := Some now,
                              expires_at := None\<rparr>))
             \<and> (py_str v = ''1'' \<or> py_str v = ''1032'' \<longrightarrow>
                  resp = PollPending \<and> d' = d)
             \<and> (py_str v \<noteq> ''0'' \<and> py_str v \<noteq> ''1'' \<and> py_str v \<noteq> ''1032'' \<longrightarrow>
                  resp = PollFailed Failed Cancelled
                  \<and> get_one (\<lambda>x. booking_id x = bid \<and> user x = uid) d'
                      = Inr (b\<lparr>payment_status := Failed, status := Cancelled,
                                cancelled_at := Some now\<rparr>))"
proof -
  from got have pb: "booking_id b = bid \<and> user b = uid"
    using get_one_mem by fastforce
  obtain ev c1 where qq: "query_transaction now net c tid = (Some r, ev, c1)"
    using q by (cases "query_transaction now net c tid") auto
  let ?P = "\<lambda>x. booking_id x = bid \<and> user x = uid"
  have s1: "get_one ?P (save b' d) = Inr b'" if "booking_id b' = booking_id b" "user b' = user b" for b'
    using get_one_save [OF dist got, of b'] that pb by simp
  show ?thesis
    using got st ps tid ne live rc pb
    by (simp add: check_payment_status_def qq Let_def confirm_payment_def s1)
qed

theorem poll_result_code_policy_witness:
  "get_one (\<lambda>x. booking_id x = 42 \<and> user x = 7) pending_db = Inr pending_booking
   \<and> distinct (map booking_id (bookings pending_db))
   \<and> status pending_booking = Pending \<and> payment_status pending_booking = PaymentPending
   \<and> transaction_id pending_booking = Some ''ws_CO_1''
   \<and> \<not> is_payment_expired 1100 pending_booking
   \<and> fst (query_transaction 1100 (net_query (JStr ''0'')) warm_cache ''ws_CO_1'')
       = Some \<lparr>ResultCode = Some (JStr ''0''), MpesaReceiptNumber = Some ''ABC123''\<rparr>
   \<and> fst (check_payment_status 1100 (net_query (JStr ''0'')) warm_cache 7 42 pending_db)
       = PollConfirmed ''ABC123''
   \<and> fst (check_payment_status 1100 (net_query (JInt 1032)) warm_cache 7 42 pending_db)
       = PollPending
   \<and> fst (check_payment_status 1100 (net_query (JInt 17)) warm_cache 7 42 pending_db)
       = PollFailed Failed Cancelled"
proof -
  have ne: "''ws_CO_1'' \<noteq> []" by simp
  note T = poll_result_code_policy [OF get_pending_by_id distinct_pending_db
      pending_booking_fields(3) pending_booking_fields(4) pending_booking_fields(5) ne
      pending_not_expired_1100, where c = warm_cache]
  have q: "fst (query_transaction 1100 (net_query v) warm_cache ''ws_CO_1'')
       = Some \<lparr>ResultCode = Some v, MpesaReceiptNumber = Some ''ABC123''\<rparr>" for v
    by (simp add: query_warm_answer)
  have rc: "ResultCode \<lparr>ResultCode = Some v, MpesaReceiptNumber = Some ''ABC123''\<rparr> = Some v" for v
    by simp
  have a: "fst (check_payment_status 1100 (net_query (JStr ''0'')) warm_cache 7 42 pending_db)
       = PollConfirmed ''ABC123''"
    using T [OF q rc, of "JStr ''0''"] by (auto split: prod.splits)
  have b: "fst (check_payment_status 1100 (net_query (JInt 1032)) warm_cache 7 42 pending_db)
       = PollPending"
    using T [OF q rc, of "JInt 1032"] by (auto split: prod.splits simp: str_int_examples)
  have c: "fst (check_payment_status 1100 (net_query (JInt 17)) warm_cache 7 42 pending_db)
       = PollFailed Failed Cancelled"
    using T [OF q rc, of "JInt 17"] by (auto split: prod.splits simp: str_int_examples)
  show ?thesis
    using get_pending_by_id distinct_pending_db pending_booking_fields
      pending_not_expired_1100 q [of "JStr ''0''"] a b c
    by simp
qed

end
